theory Spec2Isabelle
  imports Complex_Main "HOL-Library.Extended_Nat"
begin

section \<open>Loan Advisor: prepay the loan or invest the cash\<close>

text \<open>
  The source file \<^verbatim>\<open>src/App.js\<close> holds two React components named \<^verbatim>\<open>App\<close>, one after
  the other. The second one (\<^verbatim>\<open>Main Simplified App Component\<close>, from line 1003) has the
  amortization table, the tenure solver, the investment tax and the choice between a lower
  installment and a shorter tenure; the first one (from line 25) is the earlier variant with
  monthly compounding and the self-occupied / joint-loan switches. Both are embedded here.
  The functions of the second component keep their names; \<^verbatim>\<open>analyzeLoan\<close> of the first
  component is \<open>analyzeLoan_first\<close>.

  Numbers. JavaScript numbers are IEEE doubles; the embedding computes with exact reals, so
  rounding, overflow and \<^verbatim>\<open>NaN\<close> are outside of it. The only non-finite value the code
  itself writes down is the \<^verbatim>\<open>Infinity\<close> returned by \<^verbatim>\<open>calculateNewTenure\<close>; a month count is
  therefore an \<^typ>\<open>enat\<close>. The tenure in years is a whole number (\<^typ>\<open>nat\<close>), which makes
  every \<^verbatim>\<open>Math.pow\<close> of the code a power with a natural exponent. \<^verbatim>\<open>Math.log\<close> is \<^term>\<open>ln\<close>:
  it is called on positive arguments only.

  Left out: the React state plumbing, the chart data (\<^verbatim>\<open>graphData\<close>) and the two result keys
  that only pass an input through (\<^verbatim>\<open>taxSlab\<close>, \<^verbatim>\<open>investmentType\<close>); none of them feeds
  another result.
\<close>

subsection \<open>Data\<close>

text \<open>
  A row of the amortization table (second component) and a year of its tax aggregation both
  carry \<^verbatim>\<open>interest\<close> and \<^verbatim>\<open>principal\<close>; the two record types share these fields.
\<close>

record annualRow =
  year :: nat
  annualInterest :: real
  annualPrincipal :: real
  remainingBalance :: real

record amounts =
  interest :: real
  principal :: real

record amortRow = amounts +
  month :: nat
  totalPayment :: real
  endingBalance :: real

record yearData = amounts +
  year :: nat

text \<open>The form fields (React state) read by \<^verbatim>\<open>analyzeLoan\<close>; the first seven are common.\<close>

record loanInputs =
  loanAmount :: real
  interestRate :: real
  tenureYears :: nat
  extraCash :: real
  investmentReturn :: real
  taxRegime :: string
  taxSlab :: real

record inputs_first = loanInputs +
  isSelfOccupied :: bool
  isJointLoan :: bool

record inputs = loanInputs +
  investmentType :: string
  used80C :: real
  prepaymentMethod :: string

text \<open>The object handed to \<^verbatim>\<open>setResults\<close>; the first seven keys are common.\<close>

record comparison =
  interestSaved :: real
  investmentGain :: real
  originalLoanTaxBenefit :: real
  prepaidLoanTaxBenefit :: real
  netBenefitInvesting :: real
  netBenefitPrepaying :: real
  betterOption :: string

record results_first = comparison +
  originalEMI :: real
  newEMI :: real
  originalLoanTotalDeductibleInterest :: real
  originalLoanTotalDeductiblePrincipal :: real
  prepaidLoanTotalDeductibleInterest :: real
  prepaidLoanTotalDeductiblePrincipal :: real
  originalLoanFirstYearDeductibleInterest :: real
  originalLoanFirstYearDeductiblePrincipal :: real
  prepaidLoanFirstYearDeductibleInterest :: real
  prepaidLoanFirstYearDeductiblePrincipal :: real
  effective24bLimitOriginal :: real
  effective24bLimitPrepaid :: real

record results = comparison +
  originalEmi :: real
  newEmi :: real
  postTaxInvestmentGain :: real
  originalTenureMonths :: nat
  newTenureMonths :: enat
  effectiveLoanRate :: real
  originalAmortization :: "amortRow list"
  prepaidAmortization :: "amortRow list"
  investmentTax :: real

subsection \<open>Constants\<close>

definition SECTION_24B_SELF_OCCUPIED_LIMIT_PER_PERSON :: real where
  "SECTION_24B_SELF_OCCUPIED_LIMIT_PER_PERSON = 200000"

definition SECTION_24B_SOP_LIMIT :: real where
  "SECTION_24B_SOP_LIMIT = 200000"

definition SECTION_80C_LIMIT :: real where
  "SECTION_80C_LIMIT = 150000"

definition EQUITY_LTCG_TAX_RATE :: real where
  "EQUITY_LTCG_TAX_RATE = 1 / 10"

definition EQUITY_LTCG_EXEMPTION :: real where
  "EQUITY_LTCG_EXEMPTION = 100000"

subsection \<open>Helper functions\<close>

text \<open>\<^verbatim>\<open>Math.pow(x, k)\<close> at a whole exponent \<open>k \<ge> 0\<close> (so \<^verbatim>\<open>Math.pow(x, 0)\<close> is 1 for every \<open>x\<close>).\<close>

definition Math_pow :: "real \<Rightarrow> nat \<Rightarrow> real" where
  "Math_pow x k = x ^ k"

text \<open>
  \<^verbatim>\<open>calculateEMI\<close> (lines 45 and 1033, the same body in both components). The power is only
  reached with \<open>n > 0\<close>.
\<close>

definition calculateEMI :: "real \<Rightarrow> real \<Rightarrow> int \<Rightarrow> real" where
  "calculateEMI p r n =
     (if p \<le> 0 \<or> r \<le> 0 \<or> n \<le> 0 then 0
      else let monthlyRate = r / 100 / 12
           in (p * monthlyRate * Math_pow (1 + monthlyRate) (nat n)) /
              (Math_pow (1 + monthlyRate) (nat n) - 1))"

text \<open>
  \<^verbatim>\<open>calculateNewTenure\<close> (line 1042). \<^verbatim>\<open>Math.ceil\<close> yields a whole number, which is kept as
  a month count; the ceiling is shown below to be at least 1 where it is taken, so
  \<^term>\<open>nat\<close> cuts nothing off.
\<close>

definition calculateNewTenure :: "real \<Rightarrow> real \<Rightarrow> real \<Rightarrow> enat" where
  "calculateNewTenure newPrincipal originalEmi0 annualRate =
     (if newPrincipal \<le> 0 \<or> originalEmi0 \<le> 0 \<or> annualRate \<le> 0 then 0
      else let monthlyRate = annualRate / 100 / 12
           in if originalEmi0 \<le> newPrincipal * monthlyRate then \<infinity>
              else let numerator = ln (1 - (newPrincipal * monthlyRate) / originalEmi0);
                       denominator = ln (1 + monthlyRate)
                   in enat (nat \<lceil>- numerator / denominator\<rceil>))"

text \<open>
  The \<^verbatim>\<open>for\<close> loop of \<^verbatim>\<open>generateFullAmortization\<close> (lines 1062 to 1075). With
  \<open>months = \<infinity>\<close> it only ends through the \<^verbatim>\<open>break\<close>, so it is a partial function:
  \<open>None\<close> stands for a loop that never ends.
\<close>

partial_function (option) amortLoop ::
  "real \<Rightarrow> real \<Rightarrow> enat \<Rightarrow> nat \<Rightarrow> real \<Rightarrow> amortRow list \<Rightarrow> amortRow list option" where
  "amortLoop monthlyRate emi months i balance schedule =
     (if enat i \<le> months then
        (let interestForMonth = balance * monthlyRate;
             principalForMonth = max 0 (emi - interestForMonth);
             balance1 = balance - principalForMonth;
             balance2 = (if balance1 < 0 then 0 else balance1);
             schedule2 = schedule @
               [\<lparr>interest = interestForMonth, principal = principalForMonth,
                 month = i, totalPayment = emi, endingBalance = balance2\<rparr>]
         in if balance2 = 0 then Some schedule2
            else amortLoop monthlyRate emi months (i + 1) balance2 schedule2)
      else Some schedule)"

declare amortLoop.simps [code]

definition generateFullAmortization ::
  "real \<Rightarrow> real \<Rightarrow> enat \<Rightarrow> real \<Rightarrow> amortRow list option" where
  "generateFullAmortization principal0 annualRate months emi =
     (if principal0 \<le> 0 \<or> emi \<le> 0 then Some []
      else amortLoop (annualRate / 100 / 12) emi months 1 principal0 [])"

text \<open>\<^verbatim>\<open>rows.reduce((acc, row) => acc + row.interest, 0)\<close> (lines 1095 and 1167).\<close>

definition totalInterest :: "amortRow list \<Rightarrow> real" where
  "totalInterest rows = foldl (\<lambda>acc row. acc + interest row) 0 rows"

subsection \<open>Tax benefit of a schedule (second component)\<close>

text \<open>
  \<^verbatim>\<open>yearlyData\<close> is a JavaScript array that is written by index. An array is a list of
  slots, \<open>None\<close> for a hole; writing past the end pads with holes, reading a hole or past
  the end gives \<^verbatim>\<open>undefined\<close> (\<open>None\<close>), and \<^verbatim>\<open>forEach\<close> skips holes.
\<close>

definition js_get :: "'a option list \<Rightarrow> nat \<Rightarrow> 'a option" where
  "js_get xs k = (if k < length xs then xs ! k else None)"

definition js_set :: "'a option list \<Rightarrow> nat \<Rightarrow> 'a \<Rightarrow> 'a option list" where
  "js_set xs k v =
     (if k < length xs then xs[k := Some v]
      else xs @ replicate (k - length xs) None @ [Some v])"

text \<open>
  One call of the callback of \<^verbatim>\<open>amortization.forEach((monthData, i) => ...)\<close> (lines 1120 to
  1130 and again 1177 to 1187). The state is \<^verbatim>\<open>yearlyData\<close> and \<^verbatim>\<open>currentYear\<close>; the latter
  starts at 1 and only grows, so \<open>currentYear - 1\<close> is never cut off.
\<close>

definition accrueStep ::
  "yearData option list \<times> nat \<Rightarrow> amortRow \<times> nat \<Rightarrow> yearData option list \<times> nat" where
  "accrueStep s x =
     (case s of (yearlyData, currentYear) \<Rightarrow>
      case x of (monthData, i) \<Rightarrow>
        let entry = (case js_get yearlyData (currentYear - 1) of
                       None \<Rightarrow> \<lparr>interest = 0, principal = 0, year = currentYear\<rparr>
                     | Some y \<Rightarrow> y);
            entry1 = entry\<lparr>interest := interest entry + interest monthData\<rparr>;
            entry2 = entry1\<lparr>principal := principal entry1 + principal monthData\<rparr>
        in (js_set yearlyData (currentYear - 1) entry2,
            if (i + 1) mod 12 = 0 then currentYear + 1 else currentYear))"

definition accrueYears :: "amortRow list \<Rightarrow> yearData option list" where
  "accrueYears amortization =
     fst (foldl accrueStep ([], 1) (zip amortization [0..<length amortization]))"

text \<open>The callback of \<^verbatim>\<open>yearlyData.forEach((year) => ...)\<close> (lines 1131 to 1139).\<close>

definition deductionStep :: "real \<Rightarrow> real \<Rightarrow> real \<Rightarrow> yearData option \<Rightarrow> real" where
  "deductionStep available80C slab benefit slot =
     (case slot of
        None \<Rightarrow> benefit
      | Some y \<Rightarrow>
          let principalDeduction = min (principal y) available80C;
              interestDeduction = min (interest y) SECTION_24B_SOP_LIMIT;
              totalDeduction = principalDeduction + interestDeduction
          in benefit + totalDeduction * slab)"

text \<open>
  The block under \<^verbatim>\<open>if (taxRegime === "old")\<close>; the code has it twice, for the original and
  for the prepaid schedule, with the same text.
\<close>

definition loanTaxBenefit :: "amortRow list \<Rightarrow> real \<Rightarrow> real \<Rightarrow> real" where
  "loanTaxBenefit amortization available80C slab =
     foldl (deductionStep available80C slab) 0 (accrueYears amortization)"

subsection \<open>The orchestrator (second component)\<close>

text \<open>
  \<^verbatim>\<open>analyzeLoan\<close> (lines 1082 to 1262) is one long function; it is embedded block by block.
  Local variables that share their name with a result key carry a prime.

  Lines 1100 to 1113, the post-tax investment gain: the result is \<^verbatim>\<open>investmentGain\<close>,
  \<^verbatim>\<open>investmentTax\<close> and \<^verbatim>\<open>postTaxInvestmentGain\<close>. The exponent is the form field
  \<^verbatim>\<open>tenureYears\<close> itself.
\<close>

definition investmentOutcome :: "string \<Rightarrow> real \<Rightarrow> real \<Rightarrow> nat \<Rightarrow> real \<Rightarrow> real \<times> real \<times> real"
  where
  "investmentOutcome invType cash invReturn years slab =
     (let futureValue = cash * Math_pow (1 + invReturn / 100) years;
          investmentGain' = futureValue - cash;
          investmentTax' =
            (if invType = ''equity''
             then (let taxableGain = max 0 (investmentGain' - EQUITY_LTCG_EXEMPTION)
                   in taxableGain * EQUITY_LTCG_TAX_RATE)
             else investmentGain' * slab);
          postTaxInvestmentGain' = investmentGain' - investmentTax'
      in (investmentGain', investmentTax', postTaxInvestmentGain'))"

text \<open>
  Lines 1144 to 1204, the prepaid loan. The statement \<^verbatim>\<open>if (newLoanAmount > 0) ... else ...\<close>
  assigns \<^verbatim>\<open>newEmi\<close>, \<^verbatim>\<open>newTenureMonths\<close>, \<^verbatim>\<open>interestSaved\<close>, \<^verbatim>\<open>prepaidAmortization\<close> and
  \<^verbatim>\<open>prepaidLoanTaxBenefit\<close>; the block yields these five values, or \<open>None\<close> when the
  schedule loop does not end.
\<close>

definition prepayScenario ::
  "string \<Rightarrow> string \<Rightarrow> real \<Rightarrow> real \<Rightarrow> nat \<Rightarrow> real \<Rightarrow> real \<Rightarrow> real \<Rightarrow> real \<Rightarrow>
     (real \<times> enat \<times> real \<times> amortRow list \<times> real) option" where
  "prepayScenario method regime newLoanAmount r n originalEmi' totalInterestOriginal
       available80C slab =
     (if newLoanAmount > 0 then
        (let newEmi' = (if method = ''reduceEmi''
                        then calculateEMI newLoanAmount r (int n) else originalEmi');
             newTenureMonths' =
               (if method = ''reduceEmi'' then enat n
                else calculateNewTenure newLoanAmount originalEmi' r)
         in case generateFullAmortization newLoanAmount r newTenureMonths' newEmi' of
              None \<Rightarrow> None
            | Some prepaidAmortization' \<Rightarrow>
               (let totalInterestAfterPrepay = totalInterest prepaidAmortization';
                    interestSaved' = totalInterestOriginal - totalInterestAfterPrepay;
                    prepaidLoanTaxBenefit' =
                      (if regime = ''old''
                       then loanTaxBenefit prepaidAmortization' available80C slab else 0)
                in Some (newEmi', newTenureMonths', interestSaved',
                         prepaidAmortization', prepaidLoanTaxBenefit')))
      else Some (0, 0, totalInterestOriginal, [], 0))"

text \<open>The function itself: inputs, the original loan, and the final decision.\<close>

definition analyzeLoan :: "inputs \<Rightarrow> results option" where
  "analyzeLoan st =
     (let p = loanAmount st;
          r = interestRate st;
          n = tenureYears st * 12;
          cash = extraCash st;
          invReturn = investmentReturn st;
          slab = taxSlab st / 100;
          available80C = max 0 (SECTION_80C_LIMIT - used80C st);
          originalEmi' = calculateEMI p r (int n)
      in case generateFullAmortization p r (enat n) originalEmi' of
           None \<Rightarrow> None
         | Some originalAmortization' \<Rightarrow>
            (let totalInterestOriginal = totalInterest originalAmortization'
             in case investmentOutcome (investmentType st) cash invReturn (tenureYears st) slab of
                  (investmentGain', investmentTax', postTaxInvestmentGain') \<Rightarrow>
                (let originalLoanTaxBenefit' =
                       (if taxRegime st = ''old''
                        then loanTaxBenefit originalAmortization' available80C slab else 0);
                     netBenefitInvesting' = postTaxInvestmentGain' + originalLoanTaxBenefit';
                     newLoanAmount = p - cash
                 in case prepayScenario (prepaymentMethod st) (taxRegime st) newLoanAmount r n
                           originalEmi' totalInterestOriginal available80C slab of
                      None \<Rightarrow> None
                    | Some (newEmi', newTenureMonths', interestSaved',
                            prepaidAmortization', prepaidLoanTaxBenefit') \<Rightarrow>
                       (let netBenefitPrepaying' = interestSaved' + prepaidLoanTaxBenefit';
                            betterOption' = (if netBenefitInvesting' > netBenefitPrepaying'
                                             then ''Invest'' else ''Prepay'');
                            effectiveLoanRate' = r * (1 - slab)
                        in Some \<lparr>interestSaved = interestSaved',
                                 investmentGain = investmentGain',
                                 originalLoanTaxBenefit = originalLoanTaxBenefit',
                                 prepaidLoanTaxBenefit = prepaidLoanTaxBenefit',
                                 netBenefitInvesting = netBenefitInvesting',
                                 netBenefitPrepaying = netBenefitPrepaying',
                                 betterOption = betterOption',
                                 originalEmi = originalEmi',
                                 newEmi = newEmi',
                                 postTaxInvestmentGain = postTaxInvestmentGain',
                                 originalTenureMonths = n,
                                 newTenureMonths = newTenureMonths',
                                 effectiveLoanRate = effectiveLoanRate',
                                 originalAmortization = originalAmortization',
                                 prepaidAmortization = prepaidAmortization',
                                 investmentTax = investmentTax'\<rparr>))))"

subsection \<open>The first component\<close>

text \<open>\<^verbatim>\<open>calculateFutureValue\<close> (line 55): monthly compounding of the nominal annual rate.\<close>

definition calculateFutureValue :: "real \<Rightarrow> real \<Rightarrow> int \<Rightarrow> real" where
  "calculateFutureValue principal0 annualReturnRate months =
     (if principal0 \<le> 0 \<or> annualReturnRate < 0 \<or> months \<le> 0 then principal0
      else let monthlyReturnRate = annualReturnRate / 100 / 12
           in principal0 * Math_pow (1 + monthlyReturnRate) (nat months))"

text \<open>
  The loop of \<^verbatim>\<open>getAmortizationSchedule\<close> (lines 76 to 96); the state is \<^verbatim>\<open>balance\<close>,
  \<^verbatim>\<open>schedule\<close>, \<^verbatim>\<open>currentYearInterest\<close>, \<^verbatim>\<open>currentYearPrincipal\<close> and \<^verbatim>\<open>currentYear\<close>.
\<close>

function scheduleLoop ::
  "real \<Rightarrow> real \<Rightarrow> nat \<Rightarrow> nat \<Rightarrow> real \<times> annualRow list \<times> real \<times> real \<times> nat \<Rightarrow> annualRow list"
  where
  "scheduleLoop monthlyRate emi months i s =
     (case s of (balance, schedule, currentYearInterest, currentYearPrincipal, currentYear) \<Rightarrow>
        if i \<le> months then
          (let interestForMonth = balance * monthlyRate;
               principalForMonth = emi - interestForMonth;
               balance1 = balance - principalForMonth;
               currentYearInterest1 = currentYearInterest + interestForMonth;
               currentYearPrincipal1 = currentYearPrincipal + principalForMonth
           in if i mod 12 = 0 \<or> i = months
              then scheduleLoop monthlyRate emi months (i + 1)
                     (balance1,
                      schedule @ [\<lparr>annualRow.year = currentYear,
                                   annualInterest = currentYearInterest1,
                                   annualPrincipal = currentYearPrincipal1,
                                   remainingBalance = balance1\<rparr>],
                      0, 0, currentYear + 1)
              else scheduleLoop monthlyRate emi months (i + 1)
                     (balance1, schedule, currentYearInterest1, currentYearPrincipal1,
                      currentYear))
        else schedule)"
  by pat_completeness auto
termination
  by (relation "measure (\<lambda>(monthlyRate, emi, months, i, s). months + 1 - i)") auto

definition getAmortizationSchedule :: "real \<Rightarrow> real \<Rightarrow> nat \<Rightarrow> annualRow list" where
  "getAmortizationSchedule principal0 annualRate months =
     (let monthlyRate = annualRate / 100 / 12;
          emi = calculateEMI principal0 annualRate (int months)
      in scheduleLoop monthlyRate emi months 1 (principal0, [], 0, 0, 1))"

text \<open>
  The deduction block of the first component (lines 135 to 178 and again 207 to 243):
  the effective limit, then one pass over the years that sums the deductible amounts and
  keeps those of the first year. \<^verbatim>\<open>amortization[0]?.annualInterest || 0\<close> is 0 for an empty
  schedule and for a first year whose interest is 0.
\<close>

definition effective24bLimit :: "bool \<Rightarrow> bool \<Rightarrow> annualRow list \<Rightarrow> real" where
  "effective24bLimit selfOccupied jointLoan amortization =
     (if selfOccupied
      then (if jointLoan then SECTION_24B_SELF_OCCUPIED_LIMIT_PER_PERSON * 2
            else SECTION_24B_SELF_OCCUPIED_LIMIT_PER_PERSON)
      else (case amortization of
              [] \<Rightarrow> 0
            | yearData # rest \<Rightarrow>
                if annualInterest yearData = 0 then 0 else annualInterest yearData))"

definition deductStep ::
  "bool \<Rightarrow> real \<Rightarrow> real \<times> real \<times> real \<times> real \<Rightarrow> annualRow \<times> nat \<Rightarrow> real \<times> real \<times> real \<times> real"
  where
  "deductStep selfOccupied effectiveLimit s x =
     (case s of (totalDeductibleInterest, totalDeductiblePrincipal,
                 firstYearDeductibleInterest, firstYearDeductiblePrincipal) \<Rightarrow>
      case x of (yearData, index) \<Rightarrow>
        let interestDeduction = (if selfOccupied
                                 then min (annualInterest yearData) effectiveLimit
                                 else annualInterest yearData);
            principalDeduction = min (annualPrincipal yearData) SECTION_80C_LIMIT
        in (totalDeductibleInterest + interestDeduction,
            totalDeductiblePrincipal + principalDeduction,
            if index = 0 then interestDeduction else firstYearDeductibleInterest,
            if index = 0 then principalDeduction else firstYearDeductiblePrincipal))"

definition loanDeductions :: "bool \<Rightarrow> real \<Rightarrow> annualRow list \<Rightarrow> real \<times> real \<times> real \<times> real"
  where
  "loanDeductions selfOccupied effectiveLimit amortization =
     foldl (deductStep selfOccupied effectiveLimit) (0, 0, 0, 0)
       (zip amortization [0..<length amortization])"

text \<open>
  \<^verbatim>\<open>analyzeLoan\<close> of the first component (lines 103 to 340), block by block. Lines 127 to
  179 and 198 to 251: the tax benefit of a loan, with the five values that the block also
  reports (effective limit, total deductible interest and principal, those of the first
  year). The block runs under the regime \<^verbatim>\<open>old\<close> only, for the prepaid loan only when an
  amount is left; otherwise all six values stay 0.
\<close>

definition loanBenefit_first ::
  "bool \<Rightarrow> bool \<Rightarrow> bool \<Rightarrow> real \<Rightarrow> real \<Rightarrow> nat \<Rightarrow> real \<Rightarrow> real \<times> real \<times> real \<times> real \<times> real \<times> real"
  where
  "loanBenefit_first active selfOccupied jointLoan amount rate totalMonths currentTaxSlab =
     (if active then
        (let amortization = getAmortizationSchedule amount rate totalMonths;
             limit = effective24bLimit selfOccupied jointLoan amortization
         in case loanDeductions selfOccupied limit amortization of
              (totalDeductibleInterest, totalDeductiblePrincipal,
               firstYearDeductibleInterest, firstYearDeductiblePrincipal) \<Rightarrow>
                ((totalDeductibleInterest + totalDeductiblePrincipal) * (currentTaxSlab / 100),
                 limit, totalDeductibleInterest, totalDeductiblePrincipal,
                 firstYearDeductibleInterest, firstYearDeductiblePrincipal))
      else (0, 0, 0, 0, 0, 0))"

text \<open>Lines 181 to 196: \<^verbatim>\<open>newEMI\<close>, \<^verbatim>\<open>totalInterestAfterPrepay\<close> and \<^verbatim>\<open>interestSaved\<close>.\<close>

definition prepay_first :: "real \<Rightarrow> real \<Rightarrow> nat \<Rightarrow> real \<Rightarrow> real \<times> real \<times> real" where
  "prepay_first newLoanAmount rate totalMonths totalInterestOriginal =
     (if newLoanAmount > 0 then
        (let newEMI' = calculateEMI newLoanAmount rate (int totalMonths);
             totalInterestAfterPrepay = newEMI' * real totalMonths - newLoanAmount;
             interestSaved' = totalInterestOriginal - totalInterestAfterPrepay
         in (newEMI', totalInterestAfterPrepay, interestSaved'))
      else (0, 0, totalInterestOriginal))"

definition analyzeLoan_first :: "inputs_first \<Rightarrow> results_first" where
  "analyzeLoan_first st =
     (let currentLoanAmount = loanAmount st;
          currentInterestRate = interestRate st;
          currentExtraCash = extraCash st;
          currentInvestmentReturn = investmentReturn st;
          currentTaxSlab = taxSlab st;
          totalMonths = tenureYears st * 12;
          originalEMI' = calculateEMI currentLoanAmount currentInterestRate (int totalMonths);
          totalInterestOriginal = originalEMI' * real totalMonths - currentLoanAmount;
          futureValueOfInvestment =
            calculateFutureValue currentExtraCash currentInvestmentReturn (int totalMonths);
          investmentGain' = futureValueOfInvestment - currentExtraCash;
          newLoanAmount = currentLoanAmount - currentExtraCash
      in case loanBenefit_first (taxRegime st = ''old'') (isSelfOccupied st) (isJointLoan st)
                currentLoanAmount currentInterestRate totalMonths currentTaxSlab of
           (originalLoanTaxBenefit', effective24bLimitOriginal',
            originalTotalInterest, originalTotalPrincipal,
            originalFirstInterest, originalFirstPrincipal) \<Rightarrow>
         case prepay_first newLoanAmount currentInterestRate totalMonths totalInterestOriginal of
           (newEMI', totalInterestAfterPrepay, interestSaved') \<Rightarrow>
         case loanBenefit_first (taxRegime st = ''old'' \<and> newLoanAmount > 0)
                (isSelfOccupied st) (isJointLoan st)
                newLoanAmount currentInterestRate totalMonths currentTaxSlab of
           (prepaidLoanTaxBenefit', effective24bLimitPrepaid',
            prepaidTotalInterest, prepaidTotalPrincipal,
            prepaidFirstInterest, prepaidFirstPrincipal) \<Rightarrow>
           (let netBenefitInvesting' = investmentGain' + originalLoanTaxBenefit';
                netBenefitPrepaying' = interestSaved' + prepaidLoanTaxBenefit';
                betterOption' = (if netBenefitInvesting' > netBenefitPrepaying'
                                 then ''Invest'' else ''Prepay'')
            in \<lparr>interestSaved = interestSaved',
                investmentGain = investmentGain',
                originalLoanTaxBenefit = originalLoanTaxBenefit',
                prepaidLoanTaxBenefit = prepaidLoanTaxBenefit',
                netBenefitInvesting = netBenefitInvesting',
                netBenefitPrepaying = netBenefitPrepaying',
                betterOption = betterOption',
                originalEMI = originalEMI',
                newEMI = newEMI',
                originalLoanTotalDeductibleInterest = originalTotalInterest,
                originalLoanTotalDeductiblePrincipal = originalTotalPrincipal,
                prepaidLoanTotalDeductibleInterest = prepaidTotalInterest,
                prepaidLoanTotalDeductiblePrincipal = prepaidTotalPrincipal,
                originalLoanFirstYearDeductibleInterest = originalFirstInterest,
                originalLoanFirstYearDeductiblePrincipal = originalFirstPrincipal,
                prepaidLoanFirstYearDeductibleInterest = prepaidFirstInterest,
                prepaidLoanFirstYearDeductiblePrincipal = prepaidFirstPrincipal,
                effective24bLimitOriginal = effective24bLimitOriginal',
                effective24bLimitPrepaid = effective24bLimitPrepaid'\<rparr>))"

subsection \<open>Devices for the proofs\<close>

text \<open>
  The row that one pass of the loop of \<^verbatim>\<open>generateFullAmortization\<close> pushes, from the balance
  at the start of month \<open>i\<close>, and the lists of rows the loop can push from there: each row
  comes from the ending balance of the row before, and a row that ends at 0 is the last.
\<close>

definition amortRowAt :: "real \<Rightarrow> real \<Rightarrow> nat \<Rightarrow> real \<Rightarrow> amortRow" where
  "amortRowAt monthlyRate emi i balance =
     \<lparr>interest = balance * monthlyRate,
      principal = max 0 (emi - balance * monthlyRate),
      month = i, totalPayment = emi,
      endingBalance = (if balance - max 0 (emi - balance * monthlyRate) < 0 then 0
                       else balance - max 0 (emi - balance * monthlyRate))\<rparr>"

fun amortTrace :: "real \<Rightarrow> real \<Rightarrow> nat \<Rightarrow> real \<Rightarrow> amortRow list \<Rightarrow> bool" where
  "amortTrace monthlyRate emi i balance [] = True"
| "amortTrace monthlyRate emi i balance (row # rest) =
     (row = amortRowAt monthlyRate emi i balance \<and>
      (if endingBalance row = 0 then rest = []
       else amortTrace monthlyRate emi (i + 1) (endingBalance row) rest))"

text \<open>What the loop adds to the rows it starts with, when it returns.\<close>

definition traceOut :: "real \<Rightarrow> real \<Rightarrow> enat \<Rightarrow> nat \<Rightarrow> real \<Rightarrow> amortRow list \<Rightarrow> amortRow list \<Rightarrow> bool"
  where
  "traceOut mr emi months i b acc s =
     (\<exists>rows. s = acc @ rows \<and> amortTrace mr emi i b rows
           \<and> enat (length rows) \<le> months + 1 - enat i
           \<and> ((rows \<noteq> [] \<and> endingBalance (last rows) = 0) \<or> \<not> enat (i + length rows) \<le> months))"


subsection \<open>The yearly deduction as the specification words it\<close>

text \<open>
  The specification speaks of the years of a schedule: year \<open>k\<close> (counted from 0) is the
  \<open>k\<close>-th group of twelve rows, the last group possibly shorter. Its annual interest and principal
  are the sums over the group; the deducted interest is capped at the interest limit, the
  deducted principal at the remaining allowance, which is one value for all years.
\<close>

definition yearRows :: "nat \<Rightarrow> amortRow list \<Rightarrow> amortRow list" where
  "yearRows k rows = take 12 (drop (12 * k) rows)"

definition numYears :: "amortRow list \<Rightarrow> nat" where
  "numYears rows = (length rows + 11) div 12"

definition yearInterest :: "nat \<Rightarrow> amortRow list \<Rightarrow> real" where
  "yearInterest k rows = sum_list (map interest (yearRows k rows))"

definition yearPrincipal :: "nat \<Rightarrow> amortRow list \<Rightarrow> real" where
  "yearPrincipal k rows = sum_list (map principal (yearRows k rows))"

definition interestDeduction :: "nat \<Rightarrow> amortRow list \<Rightarrow> real" where
  "interestDeduction k rows = min (yearInterest k rows) SECTION_24B_SOP_LIMIT"

definition principalDeduction :: "real \<Rightarrow> nat \<Rightarrow> amortRow list \<Rightarrow> real" where
  "principalDeduction remainingAllowance k rows = min (yearPrincipal k rows) remainingAllowance"

text \<open>The year records that these groups give; the aggregation loop is shown to build them.\<close>

definition yearsOf :: "amortRow list \<Rightarrow> yearData list" where
  "yearsOf rows =
     map (\<lambda>k. \<lparr>interest = yearInterest k rows, principal = yearPrincipal k rows, year = k + 1\<rparr>)
       [0..<numYears rows]"

subsection \<open>Worked examples\<close>

text \<open>
  A loan of 4,095,000 at 1200 percent a year (100 percent a month) over one year has the
  installment 4,096,000 and a schedule in whole numbers. The extra cash repays it in full;
  the investment returns 1 percent; 50,000 of the 80C allowance are used already.
\<close>

definition exampleInputs :: inputs where
  "exampleInputs =
     \<lparr>loanAmount = 4095000, interestRate = 1200, tenureYears = 1, extraCash = 4095000,
      investmentReturn = 1, taxRegime = ''old'', taxSlab = 30,
      investmentType = ''equity'', used80C = 50000, prepaymentMethod = ''reduceTenure''\<rparr>"

definition exampleRows :: "amortRow list" where
  "exampleRows =
     [\<lparr>interest = 4095000, principal = 1000, month = 1, totalPayment = 4096000, endingBalance = 4094000\<rparr>,
      \<lparr>interest = 4094000, principal = 2000, month = 2, totalPayment = 4096000, endingBalance = 4092000\<rparr>,
      \<lparr>interest = 4092000, principal = 4000, month = 3, totalPayment = 4096000, endingBalance = 4088000\<rparr>,
      \<lparr>interest = 4088000, principal = 8000, month = 4, totalPayment = 4096000, endingBalance = 4080000\<rparr>,
      \<lparr>interest = 4080000, principal = 16000, month = 5, totalPayment = 4096000, endingBalance = 4064000\<rparr>,
      \<lparr>interest = 4064000, principal = 32000, month = 6, totalPayment = 4096000, endingBalance = 4032000\<rparr>,
      \<lparr>interest = 4032000, principal = 64000, month = 7, totalPayment = 4096000, endingBalance = 3968000\<rparr>,
      \<lparr>interest = 3968000, principal = 128000, month = 8, totalPayment = 4096000, endingBalance = 3840000\<rparr>,
      \<lparr>interest = 3840000, principal = 256000, month = 9, totalPayment = 4096000, endingBalance = 3584000\<rparr>,
      \<lparr>interest = 3584000, principal = 512000, month = 10, totalPayment = 4096000, endingBalance = 3072000\<rparr>,
      \<lparr>interest = 3072000, principal = 1024000, month = 11, totalPayment = 4096000, endingBalance = 2048000\<rparr>,
      \<lparr>interest = 2048000, principal = 2048000, month = 12, totalPayment = 4096000, endingBalance = 0\<rparr>]"

definition exampleResults :: results where
  "exampleResults =
     \<lparr>interestSaved = 45057000, investmentGain = 40950, originalLoanTaxBenefit = 90000,
      prepaidLoanTaxBenefit = 0, netBenefitInvesting = 130950, netBenefitPrepaying = 45057000,
      betterOption = ''Prepay'', originalEmi = 4096000, newEmi = 0,
      postTaxInvestmentGain = 40950, originalTenureMonths = 12, newTenureMonths = 0,
      effectiveLoanRate = 840, originalAmortization = exampleRows,
      prepaidAmortization = [], investmentTax = 0\<rparr>"

text \<open>A tie: nothing is lent and nothing is invested.\<close>

definition exampleTie :: inputs where
  "exampleTie =
     \<lparr>loanAmount = 0, interestRate = 9, tenureYears = 1, extraCash = 0,
      investmentReturn = 12, taxRegime = ''old'', taxSlab = 30,
      investmentType = ''equity'', used80C = 0, prepaymentMethod = ''reduceTenure''\<rparr>"

definition exampleInputs_first :: inputs_first where
  "exampleInputs_first =
     \<lparr>loanAmount = 4095000, interestRate = 1200, tenureYears = 1, extraCash = 4095000,
      investmentReturn = 12, taxRegime = ''new'', taxSlab = 30,
      isSelfOccupied = True, isJointLoan = False\<rparr>"

text \<open>
  Two years, in thousandths: 16,777.215 at 100 percent a month with installment 16,777.216.
  The interest of the first year is above the limit of 200,000 and that of the second year
  below it; the principal of the first year is far below an allowance of 1000 and that of
  the second year above it.
\<close>

definition exampleTwoYears :: "amortRow list" where
  "exampleTwoYears =
     [\<lparr>interest = 3355443 / 200, principal = 1 / 1000, month = 1, totalPayment = 2097152 / 125, endingBalance = 8388607 / 500\<rparr>,
      \<lparr>interest = 8388607 / 500, principal = 1 / 500, month = 2, totalPayment = 2097152 / 125, endingBalance = 4194303 / 250\<rparr>,
      \<lparr>interest = 4194303 / 250, principal = 1 / 250, month = 3, totalPayment = 2097152 / 125, endingBalance = 2097151 / 125\<rparr>,
      \<lparr>interest = 2097151 / 125, principal = 1 / 125, month = 4, totalPayment = 2097152 / 125, endingBalance = 83886 / 5\<rparr>,
      \<lparr>interest = 83886 / 5, principal = 2 / 125, month = 5, totalPayment = 2097152 / 125, endingBalance = 2097148 / 125\<rparr>,
      \<lparr>interest = 2097148 / 125, principal = 4 / 125, month = 6, totalPayment = 2097152 / 125, endingBalance = 2097144 / 125\<rparr>,
      \<lparr>interest = 2097144 / 125, principal = 8 / 125, month = 7, totalPayment = 2097152 / 125, endingBalance = 2097136 / 125\<rparr>,
      \<lparr>interest = 2097136 / 125, principal = 16 / 125, month = 8, totalPayment = 2097152 / 125, endingBalance = 419424 / 25\<rparr>,
      \<lparr>interest = 419424 / 25, principal = 32 / 125, month = 9, totalPayment = 2097152 / 125, endingBalance = 2097088 / 125\<rparr>,
      \<lparr>interest = 2097088 / 125, principal = 64 / 125, month = 10, totalPayment = 2097152 / 125, endingBalance = 2097024 / 125\<rparr>,
      \<lparr>interest = 2097024 / 125, principal = 128 / 125, month = 11, totalPayment = 2097152 / 125, endingBalance = 2096896 / 125\<rparr>,
      \<lparr>interest = 2096896 / 125, principal = 256 / 125, month = 12, totalPayment = 2097152 / 125, endingBalance = 419328 / 25\<rparr>,
      \<lparr>interest = 419328 / 25, principal = 512 / 125, month = 13, totalPayment = 2097152 / 125, endingBalance = 2096128 / 125\<rparr>,
      \<lparr>interest = 2096128 / 125, principal = 1024 / 125, month = 14, totalPayment = 2097152 / 125, endingBalance = 2095104 / 125\<rparr>,
      \<lparr>interest = 2095104 / 125, principal = 2048 / 125, month = 15, totalPayment = 2097152 / 125, endingBalance = 2093056 / 125\<rparr>,
      \<lparr>interest = 2093056 / 125, principal = 4096 / 125, month = 16, totalPayment = 2097152 / 125, endingBalance = 417792 / 25\<rparr>,
      \<lparr>interest = 417792 / 25, principal = 8192 / 125, month = 17, totalPayment = 2097152 / 125, endingBalance = 2080768 / 125\<rparr>,
      \<lparr>interest = 2080768 / 125, principal = 16384 / 125, month = 18, totalPayment = 2097152 / 125, endingBalance = 2064384 / 125\<rparr>,
      \<lparr>interest = 2064384 / 125, principal = 32768 / 125, month = 19, totalPayment = 2097152 / 125, endingBalance = 2031616 / 125\<rparr>,
      \<lparr>interest = 2031616 / 125, principal = 65536 / 125, month = 20, totalPayment = 2097152 / 125, endingBalance = 393216 / 25\<rparr>,
      \<lparr>interest = 393216 / 25, principal = 131072 / 125, month = 21, totalPayment = 2097152 / 125, endingBalance = 1835008 / 125\<rparr>,
      \<lparr>interest = 1835008 / 125, principal = 262144 / 125, month = 22, totalPayment = 2097152 / 125, endingBalance = 1572864 / 125\<rparr>,
      \<lparr>interest = 1572864 / 125, principal = 524288 / 125, month = 23, totalPayment = 2097152 / 125, endingBalance = 1048576 / 125\<rparr>,
      \<lparr>interest = 1048576 / 125, principal = 1048576 / 125, month = 24, totalPayment = 2097152 / 125, endingBalance = 0\<rparr>]"

text \<open>
  A schedule that ends early: principal 1000 at 12 percent, at most five months,
  installment 400. The third row ends the loan; its principal portion 397.839 exceeds the
  216.10 that were left.
\<close>

definition exampleEarlyPayoff :: "amortRow list" where
  "exampleEarlyPayoff =
     [\<lparr>interest = 10, principal = 390, month = 1, totalPayment = 400, endingBalance = 610\<rparr>,
      \<lparr>interest = 61 / 10, principal = 3939 / 10, month = 2, totalPayment = 400,
        endingBalance = 2161 / 10\<rparr>,
      \<lparr>interest = 2161 / 1000, principal = 397839 / 1000, month = 3, totalPayment = 400,
        endingBalance = 0\<rparr>]"


text \<open>
  Negative extra cash with a shorter tenure: the loan grows to 4100, whose monthly interest
  is not below the installment 4096.
\<close>

definition exampleNegativeCash :: inputs where
  "exampleNegativeCash =
     \<lparr>loanAmount = 4095, interestRate = 1200, tenureYears = 1, extraCash = - 5,
      investmentReturn = 12, taxRegime = ''old'', taxSlab = 30,
      investmentType = ''equity'', used80C = 0, prepaymentMethod = ''reduceTenure''\<rparr>"

section \<open>Properties\<close>

subsection \<open>Installment and tenure\<close>

lemma pow_gt_one: "0 < r \<Longrightarrow> 0 < n \<Longrightarrow> 1 < Math_pow (1 + r / 100 / 12) (nat n)"
  unfolding Math_pow_def by (rule one_less_power) auto

text \<open>
  Claim C7. \<^verbatim>\<open>calculateEMI(principal, annualRatePercent, months)\<close> returns
  \<open>principal \<sqdot> monthlyRate \<sqdot> (1 + monthlyRate)^months / ((1 + monthlyRate)^months - 1)\<close> with
  \<open>monthlyRate = annualRatePercent / 100 / 12\<close> whenever all three arguments are positive,
  and 0 whenever one of them is not. The divisor is positive in the first case, so the
  quotient is a proper division.
\<close>

theorem calculateEMI_formula:
  "(0 < p \<and> 0 < r \<and> 0 < n \<longrightarrow>
      calculateEMI p r n =
        p * (r / 100 / 12) * (1 + r / 100 / 12) ^ nat n / ((1 + r / 100 / 12) ^ nat n - 1)
      \<and> (1 + r / 100 / 12) ^ nat n - 1 > 0)
   \<and> (p \<le> 0 \<or> r \<le> 0 \<or> n \<le> 0 \<longrightarrow> calculateEMI p r n = 0)"
  using pow_gt_one [of r n]
  by (auto simp: calculateEMI_def Math_pow_def Let_def)

theorem calculateEMI_formula_witness:
  "0 < (1200::real) \<and> 0 < (1::int) \<and> calculateEMI 1200 1200 1 = 2400
   \<and> (0::real) < (1 + 1200 / 100 / 12) ^ nat 1 - 1
   \<and> (0::real) \<le> 0 \<and> calculateEMI 0 5 12 = 0"
  using calculateEMI_formula [of 1200 1200 1] calculateEMI_formula [of 0 5 12]
  by simp





subsection \<open>The amortization loop\<close>

lemma amortLoop_step:
  "amortLoop mr emi months i b acc =
     (if enat i \<le> months then
        (if endingBalance (amortRowAt mr emi i b) = 0 then Some (acc @ [amortRowAt mr emi i b])
         else amortLoop mr emi months (i + 1) (endingBalance (amortRowAt mr emi i b))
                (acc @ [amortRowAt mr emi i b]))
      else Some acc)"
  by (subst amortLoop.simps) (simp add: amortRowAt_def Let_def)

lemma amortLoop_trace:
  assumes "amortLoop mr emi months i b acc = Some s"
  shows "traceOut mr emi months i b acc s"
proof (rule amortLoop.raw_induct [where P = traceOut, OF _ assms])
  fix loop mr emi months i b acc s
  assume IH: "\<And>mr emi months i b acc s. loop mr emi months i b acc = Some s
                 \<Longrightarrow> traceOut mr emi months i b acc s"
  assume body: "(if enat i \<le> months then
        (let interestForMonth = b * mr;
             principalForMonth = max 0 (emi - interestForMonth);
             balance1 = b - principalForMonth;
             balance2 = (if balance1 < 0 then 0 else balance1);
             schedule2 = acc @
               [\<lparr>interest = interestForMonth, principal = principalForMonth,
                 month = i, totalPayment = emi, endingBalance = balance2\<rparr>]
         in if balance2 = 0 then Some schedule2
            else loop mr emi months (i + 1) balance2 schedule2)
      else Some acc) = Some s"
  let ?row = "amortRowAt mr emi i b"
  show "traceOut mr emi months i b acc s"
  proof (cases "enat i \<le> months")
    case False
    with body have "s = acc" by (simp add: Let_def)
    with False show ?thesis
      unfolding traceOut_def by (intro exI [of _ "[]"]) (simp add: enat_0)
  next
    case le: True
    show ?thesis
    proof (cases "endingBalance ?row = 0")
      case True
      with le body have "s = acc @ [?row]" by (simp add: amortRowAt_def Let_def)
      with True le show ?thesis
        unfolding traceOut_def
        by (intro exI [of _ "[?row]"]) (cases months; simp add: one_enat_def)
    next
      case False
      with le body have "loop mr emi months (i + 1) (endingBalance ?row) (acc @ [?row]) = Some s"
        by (simp add: amortRowAt_def Let_def split: if_splits)
      from IH [OF this] obtain rows where r: "s = (acc @ [?row]) @ rows"
        "amortTrace mr emi (i + 1) (endingBalance ?row) rows"
        "enat (length rows) \<le> months + 1 - enat (i + 1)"
        "(rows \<noteq> [] \<and> endingBalance (last rows) = 0) \<or> \<not> enat (i + 1 + length rows) \<le> months"
        unfolding traceOut_def by blast
      show ?thesis
        unfolding traceOut_def using r False le
        by (intro exI [of _ "?row # rows"]) (cases months; auto simp: one_enat_def)
    qed
  qed
qed

lemma amortLoop_finite:
  "\<exists>s. amortLoop mr emi (enat m) i b acc = Some s"
proof (induction "m + 1 - i" arbitrary: i b acc)
  case 0
  then have "\<not> i \<le> m" by simp
  then show ?case by (subst amortLoop_step) simp
next
  case (Suc k)
  then have "k = m + 1 - (i + 1)" by simp
  from Suc(1) [OF this] show ?case
    by (subst amortLoop_step) simp
qed


lemma amortRowAt_simps [simp]:
  "interest (amortRowAt mr emi i b) = b * mr"
  "principal (amortRowAt mr emi i b) = max 0 (emi - b * mr)"
  "month (amortRowAt mr emi i b) = i"
  "totalPayment (amortRowAt mr emi i b) = emi"
  "endingBalance (amortRowAt mr emi i b) = max 0 (b - max 0 (emi - b * mr))"
  by (simp_all add: amortRowAt_def max_def)


lemma trace_first_le:
  "amortTrace mr emi i b (x # xs) \<Longrightarrow> 0 \<le> b \<Longrightarrow> endingBalance x \<le> b \<and> 0 \<le> endingBalance x"
  by (auto simp: max_def)

lemma trace_all_le:
  "amortTrace mr emi i b rows \<Longrightarrow> 0 \<le> b \<Longrightarrow> row \<in> set rows \<Longrightarrow> endingBalance row \<le> b"
proof (induction rows arbitrary: i b)
  case Nil
  then show ?case by simp
next
  case (Cons x xs)
  have x: "endingBalance x \<le> b" "0 \<le> endingBalance x"
    using trace_first_le [OF Cons.prems(1,2)] by simp_all
  show ?case
  proof (cases "row = x")
    case True
    with x show ?thesis by simp
  next
    case False
    with Cons.prems have in_xs: "row \<in> set xs" by simp
    then have "xs \<noteq> []" by auto
    with Cons.prems(1) have "amortTrace mr emi (i + 1) (endingBalance x) xs"
      by (auto split: if_splits)
    from Cons.IH [OF this x(2) in_xs] x(1) show ?thesis by simp
  qed
qed

lemma trace_nonincreasing:
  "amortTrace mr emi i b rows \<Longrightarrow> Suc k < length rows \<Longrightarrow>
     endingBalance (rows ! Suc k) \<le> endingBalance (rows ! k)"
proof (induction rows arbitrary: i b k)
  case Nil
  then show ?case by simp
next
  case (Cons x xs)
  from Cons.prems(2) have ne: "xs \<noteq> []" by auto
  with Cons.prems(1) have tr: "amortTrace mr emi (i + 1) (endingBalance x) xs"
    by (auto split: if_splits)
  from Cons.prems(1) have x0: "0 \<le> endingBalance x" by simp
  show ?case
  proof (cases k)
    case 0
    from ne obtain y ys where xs: "xs = y # ys" by (cases xs) auto
    from trace_first_le [OF tr [unfolded xs] x0] 0 xs show ?thesis by simp
  next
    case (Suc j)
    with Cons.prems(2) have "Suc j < length xs" by simp
    from Cons.IH [OF tr this] Suc show ?thesis by simp
  qed
qed

lemma trace_stops_at_zero:
  "amortTrace mr emi i b rows \<Longrightarrow> Suc k < length rows \<Longrightarrow> endingBalance (rows ! k) \<noteq> 0"
proof (induction rows arbitrary: i b k)
  case Nil
  then show ?case by simp
next
  case (Cons x xs)
  from Cons.prems(2) have ne: "xs \<noteq> []" by auto
  with Cons.prems(1) have nz: "endingBalance x \<noteq> 0"
    and tr: "amortTrace mr emi (i + 1) (endingBalance x) xs"
    by (auto split: if_splits)
  show ?case
  proof (cases k)
    case 0
    with nz show ?thesis by simp
  next
    case (Suc j)
    with Cons.prems(2) have "Suc j < length xs" by simp
    from Cons.IH [OF tr this] Suc show ?thesis by simp
  qed
qed

lemma trace_months:
  "amortTrace mr emi i b rows \<Longrightarrow> k < length rows \<Longrightarrow> month (rows ! k) = i + k"
proof (induction rows arbitrary: i b k)
  case Nil
  then show ?case by simp
next
  case (Cons x xs)
  show ?case
  proof (cases k)
    case 0
    with Cons.prems(1) show ?thesis by simp
  next
    case (Suc j)
    with Cons.prems(2) have j: "j < length xs" by simp
    then have "xs \<noteq> []" by auto
    with Cons.prems(1) have "amortTrace mr emi (i + 1) (endingBalance x) xs"
      by (auto split: if_splits)
    from Cons.IH [OF this j] Suc show ?thesis by simp
  qed
qed


text \<open>
  An installment that does not exceed the interest on the balance leaves the balance as it
  is; without a bound on the months the loop then never ends.
\<close>

lemma trace_stuck:
  "amortTrace mr emi i b rows \<Longrightarrow> 0 < b \<Longrightarrow> emi \<le> b * mr \<Longrightarrow> row \<in> set rows \<Longrightarrow>
     endingBalance row = b"
proof (induction rows arbitrary: i)
  case Nil
  then show ?case by simp
next
  case (Cons x xs)
  from Cons.prems(1,2,3) have x: "endingBalance x = b" by (simp add: max_def)
  show ?case
  proof (cases "row = x")
    case True
    with x show ?thesis by simp
  next
    case False
    with Cons.prems(4) have in_xs: "row \<in> set xs" by simp
    then have "xs \<noteq> []" by auto
    with Cons.prems(1) x have "amortTrace mr emi (i + 1) b xs"
      by (auto split: if_splits)
    from Cons.IH [OF this Cons.prems(2,3) in_xs] show ?thesis .
  qed
qed

lemma amortLoop_never_ends:
  assumes "0 < b" "emi \<le> b * mr"
  shows "amortLoop mr emi \<infinity> i b acc = None"
proof (rule ccontr)
  assume "amortLoop mr emi \<infinity> i b acc \<noteq> None"
  then obtain s where "amortLoop mr emi \<infinity> i b acc = Some s" by auto
  from amortLoop_trace [OF this] obtain rows where
    tr: "amortTrace mr emi i b rows" and ne: "rows \<noteq> []" and z: "endingBalance (last rows) = 0"
    unfolding traceOut_def by auto
  from ne have "last rows \<in> set rows" by simp
  from trace_stuck [OF tr assms this] z assms(1) show False by simp
qed

lemma generateFullAmortization_trace:
  assumes "generateFullAmortization p r months emi = Some sched"
  shows "sched = [] \<or>
         (0 < p \<and> 0 < emi \<and> amortTrace (r / 100 / 12) emi 1 p sched)"
  using assms amortLoop_trace [of "r / 100 / 12" emi months 1 p "[]" sched]
  by (auto simp: generateFullAmortization_def traceOut_def split: if_splits)

lemma generateFullAmortization_finite:
  "\<exists>sched. generateFullAmortization p r (enat m) emi = Some sched"
  using amortLoop_finite [of "r / 100 / 12" emi m 1 p "[]"]
  by (simp add: generateFullAmortization_def)


text \<open>
  Claim C9. A schedule that \<^verbatim>\<open>generateFullAmortization\<close> returns has at most \<open>months\<close> rows;
  its ending balances never increase (and never exceed the principal); only its last row
  can end at balance 0, so generation stops at the first such row; and when it has fewer
  than \<open>months\<close> rows it has stopped for that reason. The rows are numbered from 1 without
  gaps.
\<close>

theorem generateFullAmortization_schedule:
  assumes "generateFullAmortization p r months emi = Some sched"
  shows "enat (length sched) \<le> months
       \<and> (\<forall>k. Suc k < length sched \<longrightarrow>
             endingBalance (sched ! Suc k) \<le> endingBalance (sched ! k))
       \<and> (\<forall>row \<in> set sched. endingBalance row \<le> p)
       \<and> (\<forall>k. Suc k < length sched \<longrightarrow> endingBalance (sched ! k) \<noteq> 0)
       \<and> (0 < p \<and> 0 < emi \<and> enat (length sched) < months \<longrightarrow>
             sched \<noteq> [] \<and> endingBalance (last sched) = 0)
       \<and> (\<forall>k < length sched. month (sched ! k) = k + 1)"
proof -
  have len: "enat (length sched) \<le> months"
    and stop: "0 < p \<and> 0 < emi \<and> enat (length sched) < months \<longrightarrow>
             sched \<noteq> [] \<and> endingBalance (last sched) = 0"
    using assms amortLoop_trace [of "r / 100 / 12" emi months 1 p "[]" sched]
    by (cases months; auto simp: generateFullAmortization_def traceOut_def one_enat_def enat_0
        split: if_splits)+
  from generateFullAmortization_trace [OF assms]
  consider "sched = []" | "0 < p" "amortTrace (r / 100 / 12) emi 1 p sched" by blast
  then have rest: "(\<forall>k. Suc k < length sched \<longrightarrow>
             endingBalance (sched ! Suc k) \<le> endingBalance (sched ! k))
       \<and> (\<forall>row \<in> set sched. endingBalance row \<le> p)
       \<and> (\<forall>k. Suc k < length sched \<longrightarrow> endingBalance (sched ! k) \<noteq> 0)
       \<and> (\<forall>k < length sched. month (sched ! k) = k + 1)"
  proof cases
    case 1
    then show ?thesis by simp
  next
    case 2
    show ?thesis
      using trace_nonincreasing [OF 2(2)] trace_all_le [OF 2(2)] trace_stops_at_zero [OF 2(2)]
        trace_months [OF 2(2)] 2(1)
      by auto
  qed
  from len stop rest show ?thesis by blast
qed



lemma example_early_payoff:
  "generateFullAmortization 1000 12 5 400 = Some exampleEarlyPayoff"
  by (simp add: generateFullAmortization_def amortLoop_step amortRowAt_def exampleEarlyPayoff_def
      numeral_eq_enat one_enat_def)


theorem generateFullAmortization_schedule_witness:
  "generateFullAmortization 1000 12 5 400 = Some exampleEarlyPayoff
   \<and> enat (length exampleEarlyPayoff) \<le> 5
   \<and> Suc 0 < length exampleEarlyPayoff
   \<and> endingBalance (exampleEarlyPayoff ! Suc 0) \<le> endingBalance (exampleEarlyPayoff ! 0)
   \<and> exampleEarlyPayoff ! 0 \<in> set exampleEarlyPayoff
   \<and> endingBalance (exampleEarlyPayoff ! 0) \<le> 1000
   \<and> endingBalance (exampleEarlyPayoff ! 0) \<noteq> 0
   \<and> (0::real) < 1000 \<and> (0::real) < 400 \<and> enat (length exampleEarlyPayoff) < 5
   \<and> exampleEarlyPayoff \<noteq> [] \<and> endingBalance (last exampleEarlyPayoff) = 0
   \<and> 2 < length exampleEarlyPayoff \<and> month (exampleEarlyPayoff ! 2) = 2 + 1"
  using example_early_payoff generateFullAmortization_schedule [OF example_early_payoff]
  by (simp add: exampleEarlyPayoff_def numeral_eq_enat)

subsection \<open>The blocks of the orchestrators\<close>

lemma totalInterest_Nil [simp]: "totalInterest [] = 0"
  by (simp add: totalInterest_def)

lemma analyzeLoan_SomeD:
  assumes "analyzeLoan st = Some res"
  shows "\<exists>oa g t pt e m s pa b.
     generateFullAmortization (loanAmount st) (interestRate st) (enat (tenureYears st * 12))
        (calculateEMI (loanAmount st) (interestRate st) (int (tenureYears st * 12))) = Some oa
   \<and> investmentOutcome (investmentType st) (extraCash st) (investmentReturn st) (tenureYears st)
        (taxSlab st / 100) = (g, t, pt)
   \<and> prepayScenario (prepaymentMethod st) (taxRegime st) (loanAmount st - extraCash st)
        (interestRate st) (tenureYears st * 12)
        (calculateEMI (loanAmount st) (interestRate st) (int (tenureYears st * 12)))
        (totalInterest oa) (max 0 (SECTION_80C_LIMIT - used80C st)) (taxSlab st / 100)
        = Some (e, m, s, pa, b)
   \<and> originalAmortization res = oa \<and> prepaidAmortization res = pa
   \<and> investmentGain res = g \<and> investmentTax res = t \<and> postTaxInvestmentGain res = pt
   \<and> newEmi res = e \<and> newTenureMonths res = m \<and> interestSaved res = s
   \<and> prepaidLoanTaxBenefit res = b
   \<and> originalLoanTaxBenefit res =
        (if taxRegime st = ''old''
         then loanTaxBenefit oa (max 0 (SECTION_80C_LIMIT - used80C st)) (taxSlab st / 100) else 0)
   \<and> netBenefitInvesting res = pt + originalLoanTaxBenefit res
   \<and> netBenefitPrepaying res = s + b
   \<and> betterOption res = (if netBenefitInvesting res > netBenefitPrepaying res
                          then ''Invest'' else ''Prepay'')
   \<and> originalEmi res = calculateEMI (loanAmount st) (interestRate st) (int (tenureYears st * 12))
   \<and> originalTenureMonths res = tenureYears st * 12"
  using assms
  by (auto simp: analyzeLoan_def Let_def split: option.splits prod.splits)


lemma scaled_gt:
  fixes a q :: real
  assumes "0 < a" "1 < q"
  shows "a < a * q / (q - 1)"
proof -
  have "a * (q - 1) < a * q" using assms by (simp add: algebra_simps)
  then show ?thesis using assms by (simp add: pos_less_divide_eq)
qed

lemma emi_gt_interest:
  assumes "0 < p" "0 < r" "0 < n"
  shows "p * (r / 100 / 12) < calculateEMI p r n"
proof -
  let ?mr = "r / 100 / 12"
  let ?q = "Math_pow (1 + ?mr) (nat n)"
  have q: "1 < ?q" using assms(2,3) by (rule pow_gt_one)
  have pm: "0 < p * ?mr" using assms by simp
  have "p * ?mr < p * ?mr * ?q / (?q - 1)" using pm q by (rule scaled_gt)
  moreover have "calculateEMI p r n = p * ?mr * ?q / (?q - 1)"
    using assms by (simp add: calculateEMI_def Let_def)
  ultimately show ?thesis by (simp only:)
qed

lemma calculateEMI_pos_iff: "0 < calculateEMI p r n \<longleftrightarrow> 0 < p \<and> 0 < r \<and> 0 < n"
proof
  assume "0 < calculateEMI p r n"
  then show "0 < p \<and> 0 < r \<and> 0 < n"
    by (auto simp: calculateEMI_def split: if_splits)
next
  assume h: "0 < p \<and> 0 < r \<and> 0 < n"
  then have "0 < p * (r / 100 / 12)" by simp
  with emi_gt_interest [of p r n] h show "0 < calculateEMI p r n" by linarith
qed

lemma tenure_finite:
  assumes "c \<ge> 0"
  shows "calculateNewTenure (p - c) (calculateEMI p r n) r \<noteq> \<infinity>"
proof (cases "0 < p - c \<and> 0 < calculateEMI p r n \<and> 0 < r")
  case False
  then show ?thesis by (auto simp: calculateNewTenure_def zero_enat_def)
next
  case True
  then have pos: "0 < p" "0 < r" "0 < n" using assms calculateEMI_pos_iff [of p r n] by auto
  have "(p - c) * (r / 100 / 12) \<le> p * (r / 100 / 12)"
    using assms pos by (simp add: mult_right_mono)
  with emi_gt_interest [OF pos] have "(p - c) * (r / 100 / 12) < calculateEMI p r n" by simp
  then show ?thesis using True by (simp add: calculateNewTenure_def Let_def)
qed

lemma accrueYears_Nil [simp]: "accrueYears [] = []"
  by (simp add: accrueYears_def)

lemma loanTaxBenefit_Nil [simp]: "loanTaxBenefit [] a s = 0"
  by (simp add: loanTaxBenefit_def)

lemma prepay_paid_off:
  "newLoanAmount \<le> 0 \<Longrightarrow>
     prepayScenario method regime newLoanAmount r n emi tio a s = Some (0, 0, tio, [], 0)"
  by (simp add: prepayScenario_def)

lemma prepay_SomeD:
  assumes "prepayScenario method regime newLoanAmount r n emi tio a s = Some (e, m, sv, pa, b)"
  shows "sv = tio - totalInterest pa
       \<and> b = (if regime = ''old'' then loanTaxBenefit pa a s else 0)
       \<and> m = (if newLoanAmount > 0
              then (if method = ''reduceEmi'' then enat n else calculateNewTenure newLoanAmount emi r)
              else 0)
       \<and> e = (if newLoanAmount > 0
              then (if method = ''reduceEmi'' then calculateEMI newLoanAmount r (int n) else emi)
              else 0)
       \<and> (if newLoanAmount > 0 then generateFullAmortization newLoanAmount r m e = Some pa
          else pa = [])"
  using assms
  by (auto simp: prepayScenario_def Let_def split: if_splits option.splits)

lemma prepay_total:
  assumes "method \<noteq> ''reduceEmi'' \<longrightarrow> calculateNewTenure newLoanAmount emi r \<noteq> \<infinity>"
  shows "\<exists>v. prepayScenario method regime newLoanAmount r n emi tio a s = Some v"
proof (cases "newLoanAmount > 0")
  case False
  then show ?thesis by (simp add: prepayScenario_def)
next
  case True
  show ?thesis
  proof (cases "method = ''reduceEmi''")
    case True
    with generateFullAmortization_finite [of newLoanAmount r n "calculateEMI newLoanAmount r (int n)"]
    show ?thesis by (auto simp: prepayScenario_def Let_def)
  next
    case False
    with assms obtain k where "calculateNewTenure newLoanAmount emi r = enat k" by auto
    with False generateFullAmortization_finite [of newLoanAmount r k emi]
    show ?thesis by (auto simp: prepayScenario_def Let_def)
  qed
qed

lemma analyzeLoan_total:
  assumes "prepaymentMethod st \<noteq> ''reduceEmi'' \<longrightarrow>
     calculateNewTenure (loanAmount st - extraCash st)
       (calculateEMI (loanAmount st) (interestRate st) (int (tenureYears st * 12)))
       (interestRate st) \<noteq> \<infinity>"
  shows "\<exists>res. analyzeLoan st = Some res"
proof -
  obtain oa where oa: "generateFullAmortization (loanAmount st) (interestRate st)
      (enat (tenureYears st * 12))
      (calculateEMI (loanAmount st) (interestRate st) (int (tenureYears st * 12))) = Some oa"
    using generateFullAmortization_finite by blast
  from prepay_total [OF assms] obtain v where
    "prepayScenario (prepaymentMethod st) (taxRegime st) (loanAmount st - extraCash st)
        (interestRate st) (tenureYears st * 12)
        (calculateEMI (loanAmount st) (interestRate st) (int (tenureYears st * 12)))
        (totalInterest oa) (max 0 (SECTION_80C_LIMIT - used80C st)) (taxSlab st / 100) = Some v"
    by blast
  with oa show ?thesis
    by (simp add: analyzeLoan_def Let_def split: prod.splits)
qed

text \<open>
  \<^verbatim>\<open>analyzeLoan\<close> returns whenever the extra cash is not negative. With negative extra cash
  and the shorter tenure it can hang in the schedule loop.
\<close>

lemma analyzeLoan_returns:
  assumes "0 \<le> extraCash st"
  shows "\<exists>res. analyzeLoan st = Some res"
  using analyzeLoan_total [of st] tenure_finite [OF assms] by blast

lemma investmentOutcome_D:
  assumes "investmentOutcome invType cash invReturn years slab = (g, t, pt)"
  shows "g = cash * (1 + invReturn / 100) ^ years - cash
       \<and> pt = g - t
       \<and> t = (if invType = ''equity'' then max 0 (g - EQUITY_LTCG_EXEMPTION) * EQUITY_LTCG_TAX_RATE
              else g * slab)"
  using assms by (auto simp: investmentOutcome_def Let_def Math_pow_def)

lemma first_SomeD:
  "\<exists>b1 l1 ti1 tp1 fi1 fp1 e t s b2 l2 ti2 tp2 fi2 fp2.
     loanBenefit_first (taxRegime st = ''old'') (isSelfOccupied st) (isJointLoan st)
        (loanAmount st) (interestRate st) (tenureYears st * 12) (taxSlab st)
       = (b1, l1, ti1, tp1, fi1, fp1)
   \<and> prepay_first (loanAmount st - extraCash st) (interestRate st) (tenureYears st * 12)
        (calculateEMI (loanAmount st) (interestRate st) (int (tenureYears st * 12))
           * real (tenureYears st * 12) - loanAmount st) = (e, t, s)
   \<and> loanBenefit_first (taxRegime st = ''old'' \<and> loanAmount st - extraCash st > 0)
        (isSelfOccupied st) (isJointLoan st)
        (loanAmount st - extraCash st) (interestRate st) (tenureYears st * 12) (taxSlab st)
       = (b2, l2, ti2, tp2, fi2, fp2)
   \<and> originalLoanTaxBenefit (analyzeLoan_first st) = b1
   \<and> prepaidLoanTaxBenefit (analyzeLoan_first st) = b2
   \<and> newEMI (analyzeLoan_first st) = e
   \<and> interestSaved (analyzeLoan_first st) = s
   \<and> originalEMI (analyzeLoan_first st) =
        calculateEMI (loanAmount st) (interestRate st) (int (tenureYears st * 12))
   \<and> investmentGain (analyzeLoan_first st) =
        calculateFutureValue (extraCash st) (investmentReturn st) (int (tenureYears st * 12))
          - extraCash st
   \<and> netBenefitInvesting (analyzeLoan_first st) =
        investmentGain (analyzeLoan_first st) + originalLoanTaxBenefit (analyzeLoan_first st)
   \<and> netBenefitPrepaying (analyzeLoan_first st) =
        interestSaved (analyzeLoan_first st) + prepaidLoanTaxBenefit (analyzeLoan_first st)
   \<and> betterOption (analyzeLoan_first st) =
        (if netBenefitInvesting (analyzeLoan_first st) > netBenefitPrepaying (analyzeLoan_first st)
         then ''Invest'' else ''Prepay'')"
  by (auto simp: analyzeLoan_first_def Let_def split: prod.splits)



subsection \<open>The worked examples, evaluated\<close>

lemma example_emi: "calculateEMI 4095000 1200 12 = 4096000"
  by (simp add: calculateEMI_def Math_pow_def)

lemma example_rows: "generateFullAmortization 4095000 1200 (enat 12) 4096000 = Some exampleRows"
  by (simp add: generateFullAmortization_def amortLoop_step amortRowAt_def exampleRows_def)


lemma example_interest: "totalInterest exampleRows = 45057000"
  by (simp add: exampleRows_def totalInterest_def)

lemma example_years: "accrueYears exampleRows = [Some \<lparr>interest = 45057000, principal = 4095000, year = 1\<rparr>]"
  by (simp add: exampleRows_def accrueYears_def accrueStep_def js_get_def js_set_def upt_rec)

lemma example_benefit: "loanTaxBenefit exampleRows 100000 (3 / 10) = 90000"
  by (simp add: loanTaxBenefit_def example_years deductionStep_def SECTION_24B_SOP_LIMIT_def)


lemma example_investment:
  "investmentOutcome ''equity'' 4095000 1 (Suc 0) (3 / 10) = (40950, 0, 40950)"
  by (simp add: investmentOutcome_def Math_pow_def EQUITY_LTCG_EXEMPTION_def Let_def)

lemma example_run: "analyzeLoan exampleInputs = Some exampleResults"
  by (simp add: analyzeLoan_def exampleInputs_def exampleResults_def Let_def
      SECTION_80C_LIMIT_def example_emi example_rows example_interest example_benefit
      example_investment prepay_paid_off)

lemma example_run_new:
  "analyzeLoan (exampleInputs\<lparr>taxRegime := ''new''\<rparr>) =
     Some (exampleResults\<lparr>originalLoanTaxBenefit := 0, netBenefitInvesting := 40950\<rparr>)"
  by (simp add: analyzeLoan_def exampleInputs_def exampleResults_def Let_def
      SECTION_80C_LIMIT_def example_emi example_rows example_interest
      example_investment prepay_paid_off)

lemma negative_cash_never_returns: "analyzeLoan exampleNegativeCash = None"
proof -
  have e: "calculateEMI 4095 1200 12 = 4096"
    by (simp add: calculateEMI_def Math_pow_def)
  have t: "calculateNewTenure 4100 4096 1200 = \<infinity>"
    by (simp add: calculateNewTenure_def)
  have g: "generateFullAmortization 4100 1200 \<infinity> 4096 = None"
    using amortLoop_never_ends [of 4100 4096 "1200 / 100 / 12" 1 "[]"]
    by (simp add: generateFullAmortization_def)
  have p: "prepayScenario ''reduceTenure'' ''old'' 4100 1200 12 4096 tio a s = None" for tio a s
    by (simp add: prepayScenario_def t g)
  obtain oa where "generateFullAmortization 4095 1200 (enat 12) 4096 = Some oa"
    using generateFullAmortization_finite by blast
  then show ?thesis
    by (simp add: analyzeLoan_def exampleNegativeCash_def Let_def e p split: prod.splits)
qed

lemma example_tie:
  "analyzeLoan exampleTie =
     Some \<lparr>interestSaved = 0, investmentGain = 0, originalLoanTaxBenefit = 0,
      prepaidLoanTaxBenefit = 0, netBenefitInvesting = 0, netBenefitPrepaying = 0,
      betterOption = ''Prepay'', originalEmi = 0, newEmi = 0,
      postTaxInvestmentGain = 0, originalTenureMonths = 12, newTenureMonths = 0,
      effectiveLoanRate = 63 / 10, originalAmortization = [],
      prepaidAmortization = [], investmentTax = 0\<rparr>"
  by (simp add: analyzeLoan_def exampleTie_def Let_def calculateEMI_def
      generateFullAmortization_def investmentOutcome_def prepay_paid_off
      EQUITY_LTCG_EXEMPTION_def)

subsection \<open>The decision and the tax regime\<close>

text \<open>
  Claim C1. For every input on which \<^verbatim>\<open>analyzeLoan\<close> returns, \<open>netBenefitInvesting\<close> is the
  post-tax investment gain (the gain less the investment tax) plus the tax benefit of the
  original loan, \<open>netBenefitPrepaying\<close> is \<open>interestSaved\<close> (the interest of the original
  schedule less that of the prepaid one) plus the tax benefit of the prepaid loan, and the
  recommendation is \<open>Invest\<close> exactly when \<open>netBenefitInvesting > netBenefitPrepaying\<close>,
  otherwise \<open>Prepay\<close>, so \<open>Prepay\<close> on a tie. \<^verbatim>\<open>analyzeLoan\<close> returns for every input
  whose extra cash is not negative. The first component decides by the same rule; it levies
  no tax on the investment, so its gain enters as it is.
\<close>

theorem comparison_rule:
  "(analyzeLoan st = Some res \<longrightarrow>
      netBenefitInvesting res = postTaxInvestmentGain res + originalLoanTaxBenefit res
    \<and> postTaxInvestmentGain res = investmentGain res - investmentTax res
    \<and> netBenefitPrepaying res = interestSaved res + prepaidLoanTaxBenefit res
    \<and> interestSaved res =
        totalInterest (originalAmortization res) - totalInterest (prepaidAmortization res)
    \<and> (betterOption res = ''Invest'' \<longleftrightarrow> netBenefitInvesting res > netBenefitPrepaying res)
    \<and> (betterOption res = ''Prepay'' \<longleftrightarrow> \<not> netBenefitInvesting res > netBenefitPrepaying res)
    \<and> (netBenefitInvesting res = netBenefitPrepaying res \<longrightarrow> betterOption res = ''Prepay''))
   \<and> (0 \<le> extraCash st \<longrightarrow> (\<exists>res. analyzeLoan st = Some res))
   \<and> netBenefitInvesting (analyzeLoan_first st1) =
        investmentGain (analyzeLoan_first st1) + originalLoanTaxBenefit (analyzeLoan_first st1)
   \<and> netBenefitPrepaying (analyzeLoan_first st1) =
        interestSaved (analyzeLoan_first st1) + prepaidLoanTaxBenefit (analyzeLoan_first st1)
   \<and> (betterOption (analyzeLoan_first st1) = ''Invest'' \<longleftrightarrow>
        netBenefitInvesting (analyzeLoan_first st1) > netBenefitPrepaying (analyzeLoan_first st1))
   \<and> (betterOption (analyzeLoan_first st1) = ''Prepay'' \<longleftrightarrow>
        \<not> netBenefitInvesting (analyzeLoan_first st1) > netBenefitPrepaying (analyzeLoan_first st1))"
proof (intro conjI impI)
  assume h: "analyzeLoan st = Some res"
  from analyzeLoan_SomeD [OF h] obtain oa g t pt e m s pa b where d:
    "investmentOutcome (investmentType st) (extraCash st) (investmentReturn st) (tenureYears st)
        (taxSlab st / 100) = (g, t, pt)"
    "prepayScenario (prepaymentMethod st) (taxRegime st) (loanAmount st - extraCash st)
        (interestRate st) (tenureYears st * 12)
        (calculateEMI (loanAmount st) (interestRate st) (int (tenureYears st * 12)))
        (totalInterest oa) (max 0 (SECTION_80C_LIMIT - used80C st)) (taxSlab st / 100)
        = Some (e, m, s, pa, b)"
    "originalAmortization res = oa" "prepaidAmortization res = pa"
    "investmentGain res = g" "investmentTax res = t" "postTaxInvestmentGain res = pt"
    "interestSaved res = s" "prepaidLoanTaxBenefit res = b"
    "netBenefitInvesting res = pt + originalLoanTaxBenefit res"
    "netBenefitPrepaying res = s + b"
    "betterOption res = (if netBenefitInvesting res > netBenefitPrepaying res
                          then ''Invest'' else ''Prepay'')"
    by blast
  show "netBenefitInvesting res = postTaxInvestmentGain res + originalLoanTaxBenefit res"
    using d by simp
  show "postTaxInvestmentGain res = investmentGain res - investmentTax res"
    using investmentOutcome_D [OF d(1)] d by simp
  show "netBenefitPrepaying res = interestSaved res + prepaidLoanTaxBenefit res"
    using d by simp
  show "interestSaved res =
        totalInterest (originalAmortization res) - totalInterest (prepaidAmortization res)"
    using prepay_SomeD [OF d(2)] d by simp
  show "betterOption res = ''Invest'' \<longleftrightarrow> netBenefitInvesting res > netBenefitPrepaying res"
    using d(12) by simp
  show "betterOption res = ''Prepay'' \<longleftrightarrow> \<not> netBenefitInvesting res > netBenefitPrepaying res"
    using d(12) by simp
  show "betterOption res = ''Prepay''" if "netBenefitInvesting res = netBenefitPrepaying res"
    using d(12) that by simp
next
  show "\<exists>res. analyzeLoan st = Some res" if "0 \<le> extraCash st"
    using analyzeLoan_returns [OF that] .
next
  show "netBenefitInvesting (analyzeLoan_first st1) =
        investmentGain (analyzeLoan_first st1) + originalLoanTaxBenefit (analyzeLoan_first st1)"
    using first_SomeD [of st1] by blast
  show "netBenefitPrepaying (analyzeLoan_first st1) =
        interestSaved (analyzeLoan_first st1) + prepaidLoanTaxBenefit (analyzeLoan_first st1)"
    using first_SomeD [of st1] by blast
  have b: "betterOption (analyzeLoan_first st1) =
        (if netBenefitInvesting (analyzeLoan_first st1) > netBenefitPrepaying (analyzeLoan_first st1)
         then ''Invest'' else ''Prepay'')"
    using first_SomeD [of st1] by blast
  show "betterOption (analyzeLoan_first st1) = ''Invest'' \<longleftrightarrow>
        netBenefitInvesting (analyzeLoan_first st1) > netBenefitPrepaying (analyzeLoan_first st1)"
    by (subst b) simp
  show "betterOption (analyzeLoan_first st1) = ''Prepay'' \<longleftrightarrow>
        \<not> netBenefitInvesting (analyzeLoan_first st1) > netBenefitPrepaying (analyzeLoan_first st1)"
    by (subst b) simp
qed

theorem comparison_rule_witness:
  "0 \<le> extraCash exampleInputs
   \<and> analyzeLoan exampleInputs = Some exampleResults
   \<and> netBenefitInvesting exampleResults = 40950 + 90000
   \<and> netBenefitPrepaying exampleResults = 45057000 + 0
   \<and> netBenefitInvesting exampleResults < netBenefitPrepaying exampleResults
   \<and> betterOption exampleResults = ''Prepay''
   \<and> analyzeLoan exampleTie \<noteq> None
   \<and> netBenefitInvesting (the (analyzeLoan exampleTie)) = 0
   \<and> netBenefitPrepaying (the (analyzeLoan exampleTie)) = 0
   \<and> betterOption (the (analyzeLoan exampleTie)) = ''Prepay''"
  using comparison_rule [of exampleInputs exampleResults]
    comparison_rule [of exampleTie "the (analyzeLoan exampleTie)"]
    example_run example_tie
  by (simp add: exampleResults_def exampleInputs_def)

text \<open>
  Claim C5. Under the tax regime \<open>new\<close> both tax benefits are exactly 0, whatever the other
  inputs are, in both components.
\<close>

theorem new_regime_no_benefit:
  "(taxRegime st = ''new'' \<and> analyzeLoan st = Some res \<longrightarrow>
      originalLoanTaxBenefit res = 0 \<and> prepaidLoanTaxBenefit res = 0)
   \<and> (taxRegime st1 = ''new'' \<longrightarrow>
      originalLoanTaxBenefit (analyzeLoan_first st1) = 0 \<and>
      prepaidLoanTaxBenefit (analyzeLoan_first st1) = 0)"
proof (intro conjI impI)
  assume h: "taxRegime st = ''new'' \<and> analyzeLoan st = Some res"
  from analyzeLoan_SomeD [of st res] h obtain oa e m s pa b where d:
    "prepayScenario (prepaymentMethod st) (taxRegime st) (loanAmount st - extraCash st)
        (interestRate st) (tenureYears st * 12)
        (calculateEMI (loanAmount st) (interestRate st) (int (tenureYears st * 12)))
        (totalInterest oa) (max 0 (SECTION_80C_LIMIT - used80C st)) (taxSlab st / 100)
        = Some (e, m, s, pa, b)"
    "prepaidLoanTaxBenefit res = b"
    "originalLoanTaxBenefit res =
        (if taxRegime st = ''old''
         then loanTaxBenefit oa (max 0 (SECTION_80C_LIMIT - used80C st)) (taxSlab st / 100) else 0)"
    by blast
  show "originalLoanTaxBenefit res = 0" using d(3) h by simp
  show "prepaidLoanTaxBenefit res = 0" using prepay_SomeD [OF d(1)] d(2) h by simp
next
  assume h: "taxRegime st1 = ''new''"
  then have z: "loanBenefit_first (taxRegime st1 = ''old'') sf j a r n ts = (0, 0, 0, 0, 0, 0)"
    "loanBenefit_first (taxRegime st1 = ''old'' \<and> c) sf j a r n ts = (0, 0, 0, 0, 0, 0)"
    for sf j a r n ts c
    by (simp_all add: loanBenefit_first_def)
  show "originalLoanTaxBenefit (analyzeLoan_first st1) = 0"
    using first_SomeD [of st1] z by auto
  show "prepaidLoanTaxBenefit (analyzeLoan_first st1) = 0"
    using first_SomeD [of st1] z by auto
qed

theorem new_regime_no_benefit_witness:
  "taxRegime (exampleInputs\<lparr>taxRegime := ''new''\<rparr>) = ''new''
   \<and> analyzeLoan (exampleInputs\<lparr>taxRegime := ''new''\<rparr>) =
       Some (exampleResults\<lparr>originalLoanTaxBenefit := 0, netBenefitInvesting := 40950\<rparr>)
   \<and> originalLoanTaxBenefit
        (exampleResults\<lparr>originalLoanTaxBenefit := 0, netBenefitInvesting := 40950\<rparr>) = 0
   \<and> prepaidLoanTaxBenefit
        (exampleResults\<lparr>originalLoanTaxBenefit := 0, netBenefitInvesting := 40950\<rparr>) = 0
   \<and> originalLoanTaxBenefit exampleResults = 90000
   \<and> taxRegime exampleInputs_first = ''new''
   \<and> originalLoanTaxBenefit (analyzeLoan_first exampleInputs_first) = 0
   \<and> prepaidLoanTaxBenefit (analyzeLoan_first exampleInputs_first) = 0"
  using new_regime_no_benefit [of "exampleInputs\<lparr>taxRegime := ''new''\<rparr>"
      "exampleResults\<lparr>originalLoanTaxBenefit := 0, netBenefitInvesting := 40950\<rparr>"
      exampleInputs_first]
    example_run_new
  by (simp add: exampleInputs_first_def exampleResults_def)

subsection \<open>The fully retired loan\<close>

text \<open>
  Claim C6. When the extra cash is at least the principal, \<^verbatim>\<open>analyzeLoan\<close> returns a result
  (it is not an error and the schedule loop ends): the prepaid schedule is empty, the new
  installment is 0, the new tenure is 0 months and \<open>interestSaved\<close> is the total interest
  of the original schedule. The first component has no schedule or tenure among its results;
  its new installment is 0 and its interest saved is its total original interest,
  \<open>originalEMI \<sqdot> totalMonths - loanAmount\<close>.
\<close>

theorem fully_retired_loan:
  "(loanAmount st \<le> extraCash st \<longrightarrow>
      (\<exists>res. analyzeLoan st = Some res
         \<and> prepaidAmortization res = [] \<and> newEmi res = 0 \<and> newTenureMonths res = 0
         \<and> interestSaved res = totalInterest (originalAmortization res)
         \<and> prepaidLoanTaxBenefit res = 0))
   \<and> (loanAmount st1 \<le> extraCash st1 \<longrightarrow>
         newEMI (analyzeLoan_first st1) = 0
       \<and> interestSaved (analyzeLoan_first st1) =
           originalEMI (analyzeLoan_first st1) * real (tenureYears st1 * 12) - loanAmount st1
       \<and> prepaidLoanTaxBenefit (analyzeLoan_first st1) = 0)"
proof (intro conjI impI)
  assume h: "loanAmount st \<le> extraCash st"
  then have le: "loanAmount st - extraCash st \<le> 0" by simp
  have "calculateNewTenure (loanAmount st - extraCash st)
       (calculateEMI (loanAmount st) (interestRate st) (int (tenureYears st * 12)))
       (interestRate st) \<noteq> \<infinity>"
    using le by (simp add: calculateNewTenure_def zero_enat_def)
  then obtain res where res: "analyzeLoan st = Some res"
    using analyzeLoan_total [of st] by blast
  from analyzeLoan_SomeD [OF res] obtain oa e m s pa b where d:
    "prepayScenario (prepaymentMethod st) (taxRegime st) (loanAmount st - extraCash st)
        (interestRate st) (tenureYears st * 12)
        (calculateEMI (loanAmount st) (interestRate st) (int (tenureYears st * 12)))
        (totalInterest oa) (max 0 (SECTION_80C_LIMIT - used80C st)) (taxSlab st / 100)
        = Some (e, m, s, pa, b)"
    "originalAmortization res = oa" "prepaidAmortization res = pa"
    "newEmi res = e" "newTenureMonths res = m" "interestSaved res = s"
    "prepaidLoanTaxBenefit res = b"
    by blast
  from d(1) prepay_paid_off [OF le] have "e = 0" "m = 0" "s = totalInterest oa" "pa = []" "b = 0"
    by simp_all
  with d res show "\<exists>res. analyzeLoan st = Some res
         \<and> prepaidAmortization res = [] \<and> newEmi res = 0 \<and> newTenureMonths res = 0
         \<and> interestSaved res = totalInterest (originalAmortization res)
         \<and> prepaidLoanTaxBenefit res = 0"
    by simp
next
  assume h: "loanAmount st1 \<le> extraCash st1"
  then have p: "prepay_first (loanAmount st1 - extraCash st1) r n tio = (0, 0, tio)" for r n tio
    by (simp add: prepay_first_def)
  from h have z: "loanBenefit_first (c \<and> loanAmount st1 - extraCash st1 > 0) sf j a r n ts
       = (0, 0, 0, 0, 0, 0)" for c sf j a r n ts
    by (simp add: loanBenefit_first_def)
  show "newEMI (analyzeLoan_first st1) = 0"
    using first_SomeD [of st1] p by auto
  show "interestSaved (analyzeLoan_first st1) =
           originalEMI (analyzeLoan_first st1) * real (tenureYears st1 * 12) - loanAmount st1"
    using first_SomeD [of st1] p by auto
  show "prepaidLoanTaxBenefit (analyzeLoan_first st1) = 0"
    using first_SomeD [of st1] z by auto
qed

theorem fully_retired_loan_witness:
  "loanAmount exampleInputs \<le> extraCash exampleInputs
   \<and> analyzeLoan exampleInputs = Some exampleResults
   \<and> prepaidAmortization exampleResults = [] \<and> newEmi exampleResults = 0
   \<and> newTenureMonths exampleResults = 0
   \<and> interestSaved exampleResults = 45057000
   \<and> totalInterest (originalAmortization exampleResults) = 45057000
   \<and> loanAmount exampleInputs_first \<le> extraCash exampleInputs_first
   \<and> newEMI (analyzeLoan_first exampleInputs_first) = 0
   \<and> prepaidLoanTaxBenefit (analyzeLoan_first exampleInputs_first) = 0"
  using fully_retired_loan [of exampleInputs exampleInputs_first] example_run example_interest
  by (simp add: exampleInputs_def exampleInputs_first_def exampleResults_def)

subsection \<open>The investment\<close>

text \<open>
  Counterexample to claim C8 as stated, on the first component: \<^verbatim>\<open>calculateFutureValue\<close>
  compounds every month. 100,000 at 12 percent over 12 months grow to more than 112,682, not to the 112,000
  of one annual compounding.
\<close>

theorem monthly_compounding_counterexample:
  "112682 < calculateFutureValue 100000 12 12
   \<and> 100000 * Math_pow (1 + 12 / 100) 1 = 112000
   \<and> calculateFutureValue 100000 12 12 \<noteq> 100000 * Math_pow (1 + 12 / 100) 1"
  by (simp add: calculateFutureValue_def Math_pow_def power_divide)

text \<open>
  Claim C8, amended. The second component compounds once a year over the whole years of the
  tenure: its gross gain is \<open>extraCash \<sqdot> (1 + investmentReturn / 100)^tenureYears - extraCash\<close>,
  the post-tax gain is the gain less the tax, and for \<open>equity\<close> with a gain below the
  exemption the tax is 0 and the post-tax gain is the gain. The first component compounds
  monthly: \<^verbatim>\<open>calculateFutureValue\<close> is \<open>principal \<sqdot> (1 + rate / 100 / 12)^months\<close>, and the
  principal unchanged when the principal or the months are not positive or the rate is
  negative; its gain is that value less the cash, untaxed.
\<close>

theorem investment_projection:
  "(analyzeLoan st = Some res \<longrightarrow>
      investmentGain res =
        extraCash st * (1 + investmentReturn st / 100) ^ tenureYears st - extraCash st
    \<and> postTaxInvestmentGain res = investmentGain res - investmentTax res
    \<and> (investmentType st = ''equity'' \<longrightarrow>
         investmentTax res =
           max 0 (investmentGain res - EQUITY_LTCG_EXEMPTION) * EQUITY_LTCG_TAX_RATE)
    \<and> (investmentType st = ''equity'' \<and> investmentGain res < EQUITY_LTCG_EXEMPTION \<longrightarrow>
         investmentTax res = 0 \<and> postTaxInvestmentGain res = investmentGain res))
   \<and> calculateFutureValue principal0 annualReturnRate months =
       (if principal0 \<le> 0 \<or> annualReturnRate < 0 \<or> months \<le> 0 then principal0
        else principal0 * (1 + annualReturnRate / 100 / 12) ^ nat months)
   \<and> investmentGain (analyzeLoan_first st1) =
       calculateFutureValue (extraCash st1) (investmentReturn st1) (int (tenureYears st1 * 12))
         - extraCash st1"
proof (intro conjI impI)
  assume h: "analyzeLoan st = Some res"
  from analyzeLoan_SomeD [OF h] obtain g t pt where d:
    "investmentOutcome (investmentType st) (extraCash st) (investmentReturn st) (tenureYears st)
        (taxSlab st / 100) = (g, t, pt)"
    "investmentGain res = g" "investmentTax res = t" "postTaxInvestmentGain res = pt"
    by blast
  note o = investmentOutcome_D [OF d(1)]
  show "investmentGain res =
        extraCash st * (1 + investmentReturn st / 100) ^ tenureYears st - extraCash st"
    using o d by simp
  show "postTaxInvestmentGain res = investmentGain res - investmentTax res"
    using o d by simp
  show "investmentTax res =
           max 0 (investmentGain res - EQUITY_LTCG_EXEMPTION) * EQUITY_LTCG_TAX_RATE"
    if "investmentType st = ''equity''"
    using o d that by simp
  show "investmentTax res = 0"
    if "investmentType st = ''equity'' \<and> investmentGain res < EQUITY_LTCG_EXEMPTION"
    using o d that by simp
  show "postTaxInvestmentGain res = investmentGain res"
    if "investmentType st = ''equity'' \<and> investmentGain res < EQUITY_LTCG_EXEMPTION"
    using o d that by simp
next
  show "calculateFutureValue principal0 annualReturnRate months =
       (if principal0 \<le> 0 \<or> annualReturnRate < 0 \<or> months \<le> 0 then principal0
        else principal0 * (1 + annualReturnRate / 100 / 12) ^ nat months)"
    by (simp add: calculateFutureValue_def Math_pow_def Let_def)
  show "investmentGain (analyzeLoan_first st1) =
       calculateFutureValue (extraCash st1) (investmentReturn st1) (int (tenureYears st1 * 12))
         - extraCash st1"
    using first_SomeD [of st1] by blast
qed

theorem investment_projection_witness:
  "analyzeLoan exampleInputs = Some exampleResults
   \<and> investmentType exampleInputs = ''equity''
   \<and> investmentGain exampleResults = 40950
   \<and> extraCash exampleInputs * (1 + investmentReturn exampleInputs / 100)
        ^ tenureYears exampleInputs - extraCash exampleInputs = 40950
   \<and> investmentGain exampleResults < EQUITY_LTCG_EXEMPTION
   \<and> investmentTax exampleResults = 0
   \<and> postTaxInvestmentGain exampleResults = investmentGain exampleResults"
  using investment_projection [of exampleInputs exampleResults] example_run
  by (simp add: exampleInputs_def exampleResults_def EQUITY_LTCG_EXEMPTION_def)

subsection \<open>The shorter tenure is finite\<close>



subsection \<open>The yearly deduction\<close>

lemma yearRows_snoc:
  "yearRows k (xs @ [x]) = (if k = length xs div 12 then yearRows k xs @ [x] else yearRows k xs)"
proof (cases "12 * k \<le> length xs")
  case False
  then have "k \<noteq> length xs div 12" by auto
  with False show ?thesis by (simp add: yearRows_def)
next
  case True
  show ?thesis
  proof (cases "k = length xs div 12")
    case True
    then have "12 * k \<le> length xs" "length xs - 12 * k < 12" by auto
    with True show ?thesis by (simp add: yearRows_def)
  next
    case False
    with True have "12 \<le> length xs - 12 * k" by auto
    with True False show ?thesis by (simp add: yearRows_def)
  qed
qed

lemma yearInterest_snoc:
  "yearInterest k (xs @ [x]) =
     yearInterest k xs + (if k = length xs div 12 then interest x else 0)"
  by (simp add: yearInterest_def yearRows_snoc)

lemma yearPrincipal_snoc:
  "yearPrincipal k (xs @ [x]) =
     yearPrincipal k xs + (if k = length xs div 12 then principal x else 0)"
  by (simp add: yearPrincipal_def yearRows_snoc)

lemma numYears_snoc: "numYears (xs @ [x]) = length xs div 12 + 1"
  by (simp add: numYears_def)

lemma numYears_cases:
  "numYears xs = (if length xs mod 12 = 0 then length xs div 12 else length xs div 12 + 1)"
  unfolding numYears_def by presburger

lemma length_yearsOf [simp]: "length (yearsOf rows) = numYears rows"
  by (simp add: yearsOf_def)

lemma nth_yearsOf:
  "k < numYears rows \<Longrightarrow>
     yearsOf rows ! k =
       \<lparr>interest = yearInterest k rows, principal = yearPrincipal k rows, year = k + 1\<rparr>"
  by (simp add: yearsOf_def)

lemma year_empty_at_boundary:
  "length xs mod 12 = 0 \<Longrightarrow> yearRows (length xs div 12) xs = []"
  by (simp add: yearRows_def) presburger

lemma div12_Suc: "Suc n div 12 = (if Suc n mod 12 = 0 then Suc (n div 12) else n div 12)"
  by presburger

lemma yearsOf_snoc_new:
  assumes "length xs mod 12 = 0"
  shows "yearsOf (xs @ [x]) =
     yearsOf xs @ [\<lparr>interest = interest x, principal = principal x,
                    year = length xs div 12 + 1\<rparr>]"
proof (rule nth_equalityI)
  have len: "numYears xs = length xs div 12" using assms by (simp add: numYears_cases)
  show "length (yearsOf (xs @ [x])) =
     length (yearsOf xs @ [\<lparr>interest = interest x, principal = principal x,
                    year = length xs div 12 + 1\<rparr>])"
    by (simp add: numYears_snoc len)
  fix k assume "k < length (yearsOf (xs @ [x]))"
  then have k: "k < length xs div 12 + 1" by (simp add: numYears_snoc)
  show "yearsOf (xs @ [x]) ! k =
     (yearsOf xs @ [\<lparr>interest = interest x, principal = principal x,
                    year = length xs div 12 + 1\<rparr>]) ! k"
  proof (cases "k = length xs div 12")
    case True
    have "yearInterest k xs = 0" "yearPrincipal k xs = 0"
      using year_empty_at_boundary [OF assms] True
      by (simp_all add: yearInterest_def yearPrincipal_def)
    with True show ?thesis
      by (simp add: nth_yearsOf numYears_snoc nth_append len
          yearInterest_snoc yearPrincipal_snoc)
  next
    case False
    with k have "k < length xs div 12" by simp
    with False show ?thesis
      by (simp add: nth_yearsOf numYears_snoc nth_append len
          yearInterest_snoc yearPrincipal_snoc)
  qed
qed

lemma yearsOf_snoc_same:
  assumes "length xs mod 12 \<noteq> 0"
  shows "yearsOf (xs @ [x]) =
     (yearsOf xs)[length xs div 12 :=
        \<lparr>interest = yearInterest (length xs div 12) xs + interest x,
         principal = yearPrincipal (length xs div 12) xs + principal x,
         year = length xs div 12 + 1\<rparr>]"
proof (rule nth_equalityI)
  have len: "numYears xs = length xs div 12 + 1" using assms by (simp add: numYears_cases)
  show "length (yearsOf (xs @ [x])) =
     length ((yearsOf xs)[length xs div 12 :=
        \<lparr>interest = yearInterest (length xs div 12) xs + interest x,
         principal = yearPrincipal (length xs div 12) xs + principal x,
         year = length xs div 12 + 1\<rparr>])"
    by (simp add: numYears_snoc len)
  fix k assume "k < length (yearsOf (xs @ [x]))"
  then have k: "k < length xs div 12 + 1" by (simp add: numYears_snoc)
  then have k': "k < numYears xs" by (simp add: len)
  show "yearsOf (xs @ [x]) ! k =
     (yearsOf xs)[length xs div 12 :=
        \<lparr>interest = yearInterest (length xs div 12) xs + interest x,
         principal = yearPrincipal (length xs div 12) xs + principal x,
         year = length xs div 12 + 1\<rparr>] ! k"
    using k k'
    by (cases "k = length xs div 12")
       (simp_all add: nth_yearsOf numYears_snoc yearInterest_snoc yearPrincipal_snoc len)
qed

lemma accrue_invariant:
  "foldl accrueStep ([], 1) (zip rows [0..<length rows]) =
     (map Some (yearsOf rows), length rows div 12 + 1)"
proof (induction rows rule: rev_induct)
  case Nil
  then show ?case by (simp add: yearsOf_def numYears_def)
next
  case (snoc x xs)
  let ?n = "length xs"
  have z: "zip (xs @ [x]) [0..<length (xs @ [x])] = zip xs [0..<?n] @ [(x, ?n)]"
    by simp
  have step: "accrueStep (map Some (yearsOf xs), ?n div 12 + 1) (x, ?n) =
        (map Some (yearsOf (xs @ [x])), length (xs @ [x]) div 12 + 1)"
  proof (cases "?n mod 12 = 0")
    case True
    then have len: "numYears xs = ?n div 12" by (simp add: numYears_cases)
    have y: "Suc ?n mod 12 \<noteq> 0" using True by presburger
    show ?thesis
      using y
      by (simp add: accrueStep_def js_get_def js_set_def len yearsOf_snoc_new [OF True]
          div12_Suc)
  next
    case False
    then have len: "numYears xs = ?n div 12 + 1" by (simp add: numYears_cases)
    show ?thesis
      by (simp add: accrueStep_def js_get_def js_set_def len yearsOf_snoc_same [OF False]
          nth_yearsOf map_update div12_Suc)
  qed
  have "foldl accrueStep ([], 1) (zip (xs @ [x]) [0..<length (xs @ [x])]) =
      accrueStep (foldl accrueStep ([], 1) (zip xs [0..<?n])) (x, ?n)"
    unfolding z by (simp only: foldl_append foldl.simps)
  also have "\<dots> = accrueStep (map Some (yearsOf xs), ?n div 12 + 1) (x, ?n)"
    by (simp only: snoc.IH)
  finally show ?case by (simp only: step)
qed

lemma accrueYears_yearsOf: "accrueYears rows = map Some (yearsOf rows)"
  unfolding accrueYears_def accrue_invariant by simp

lemma foldl_deductionStep:
  "foldl (deductionStep a s) acc (map Some ys) =
     acc + sum_list (map (\<lambda>y. (min (interest y) SECTION_24B_SOP_LIMIT + min (principal y) a) * s) ys)"
  by (induction ys arbitrary: acc) (simp_all add: deductionStep_def Let_def algebra_simps)

lemma loanTaxBenefit_sum:
  "loanTaxBenefit rows a s =
     (\<Sum>k<numYears rows. (interestDeduction k rows + principalDeduction a k rows) * s)"
proof -
  have "loanTaxBenefit rows a s =
      sum_list (map (\<lambda>y. (min (interest y) SECTION_24B_SOP_LIMIT + min (principal y) a) * s)
        (yearsOf rows))"
    by (simp add: loanTaxBenefit_def accrueYears_yearsOf foldl_deductionStep)
  also have "\<dots> = sum_list (map (\<lambda>k. (interestDeduction k rows + principalDeduction a k rows) * s)
       [0..<numYears rows])"
    by (simp add: yearsOf_def interestDeduction_def principalDeduction_def o_def)
  also have "\<dots> = (\<Sum>k<numYears rows. (interestDeduction k rows + principalDeduction a k rows) * s)"
    by (simp add: interv_sum_list_conv_sum_set_nat atLeast0LessThan)
  finally show ?thesis .
qed


lemma example_two_years:
  "generateFullAmortization (16777215 / 1000) 1200 (enat 24) (16777216 / 1000)
     = Some exampleTwoYears"
  by (simp add: generateFullAmortization_def amortLoop_step amortRowAt_def exampleTwoYears_def)

lemma example_two_years_amounts:
  "numYears exampleTwoYears = 2"
  "yearInterest 0 exampleTwoYears = 201322497 / 1000" "yearPrincipal 0 exampleTwoYears = 819 / 200"
  "yearInterest 1 exampleTwoYears = 23069184 / 125" "yearPrincipal 1 exampleTwoYears = 419328 / 25"
  by (simp_all add: numYears_def yearInterest_def yearPrincipal_def yearRows_def
      exampleTwoYears_def)

text \<open>
  Claim C4. The tax benefit of a schedule is the sum, over its years, of the deducted
  interest \<open>min(annualInterest, limit)\<close> plus the deducted principal
  \<open>min(annualPrincipal, remainingAllowance)\<close>, times the slab fraction. Each summand reads
  the rows of its own year and the two caps only, so no headroom moves between years. In
  \<^verbatim>\<open>analyzeLoan\<close> under the regime \<open>old\<close> the remaining allowance is the one value
  \<open>max(0, SECTION_80C_LIMIT - used80C)\<close> and the slab fraction is \<open>taxSlab / 100\<close>, for the
  original and for the prepaid schedule.
\<close>

theorem tax_benefit_per_year:
  "loanTaxBenefit rows remainingAllowance slab =
     (\<Sum>k<numYears rows.
        (interestDeduction k rows + principalDeduction remainingAllowance k rows) * slab)
   \<and> (analyzeLoan st = Some res \<and> taxRegime st = ''old'' \<longrightarrow>
        originalLoanTaxBenefit res =
          loanTaxBenefit (originalAmortization res)
            (max 0 (SECTION_80C_LIMIT - used80C st)) (taxSlab st / 100)
      \<and> prepaidLoanTaxBenefit res =
          loanTaxBenefit (prepaidAmortization res)
            (max 0 (SECTION_80C_LIMIT - used80C st)) (taxSlab st / 100))"
proof (intro conjI impI)
  show "loanTaxBenefit rows remainingAllowance slab =
     (\<Sum>k<numYears rows.
        (interestDeduction k rows + principalDeduction remainingAllowance k rows) * slab)"
    by (rule loanTaxBenefit_sum)
next
  assume h: "analyzeLoan st = Some res \<and> taxRegime st = ''old''"
  from analyzeLoan_SomeD [of st res] h obtain oa e m s pa b where d:
    "prepayScenario (prepaymentMethod st) (taxRegime st) (loanAmount st - extraCash st)
        (interestRate st) (tenureYears st * 12)
        (calculateEMI (loanAmount st) (interestRate st) (int (tenureYears st * 12)))
        (totalInterest oa) (max 0 (SECTION_80C_LIMIT - used80C st)) (taxSlab st / 100)
        = Some (e, m, s, pa, b)"
    "originalAmortization res = oa" "prepaidAmortization res = pa"
    "prepaidLoanTaxBenefit res = b"
    "originalLoanTaxBenefit res =
        (if taxRegime st = ''old''
         then loanTaxBenefit oa (max 0 (SECTION_80C_LIMIT - used80C st)) (taxSlab st / 100) else 0)"
    by blast
  show "originalLoanTaxBenefit res =
          loanTaxBenefit (originalAmortization res)
            (max 0 (SECTION_80C_LIMIT - used80C st)) (taxSlab st / 100)"
    using d h by simp
  show "prepaidLoanTaxBenefit res =
          loanTaxBenefit (prepaidAmortization res)
            (max 0 (SECTION_80C_LIMIT - used80C st)) (taxSlab st / 100)"
    using prepay_SomeD [OF d(1)] d h by simp
qed

theorem tax_benefit_per_year_witness:
  "numYears exampleTwoYears = 2
   \<and> yearInterest 0 exampleTwoYears = 201322497 / 1000 \<and> interestDeduction 0 exampleTwoYears = 200000
   \<and> yearPrincipal 0 exampleTwoYears = 819 / 200 \<and> principalDeduction 1000 0 exampleTwoYears = 819 / 200
   \<and> yearInterest 1 exampleTwoYears = 23069184 / 125 \<and> interestDeduction 1 exampleTwoYears = 23069184 / 125
   \<and> yearPrincipal 1 exampleTwoYears = 419328 / 25 \<and> principalDeduction 1000 1 exampleTwoYears = 1000
   \<and> loanTaxBenefit exampleTwoYears 1000 (3 / 10) = 1156672701 / 10000
   \<and> analyzeLoan exampleInputs = Some exampleResults \<and> taxRegime exampleInputs = ''old''
   \<and> max 0 (SECTION_80C_LIMIT - used80C exampleInputs) = 100000
   \<and> originalLoanTaxBenefit exampleResults = 90000
   \<and> loanTaxBenefit (originalAmortization exampleResults) 100000 (3 / 10) = 90000
   \<and> prepaidLoanTaxBenefit exampleResults = 0"
  using tax_benefit_per_year [of exampleTwoYears 1000 "3 / 10" exampleInputs exampleResults]
    example_run example_two_years_amounts example_benefit
  by (simp add: interestDeduction_def principalDeduction_def SECTION_24B_SOP_LIMIT_def
      SECTION_80C_LIMIT_def exampleInputs_def exampleResults_def numeral_2_eq_2)

end
